theory Spec2Isabelle
  imports Main "HOL-Library.Sublist"
begin

section \<open>The corpus: notebook documents and their code cells\<close>

text \<open>
  The repository holds Jupyter notebook documents and nothing else. A document is a JSON
  object with a list of cells and a metadata block; the executable part of a document is
  the sequence of its cells of type \<^verbatim>\<open>code\<close>, each a list of source lines. The record
  below keeps what the documents carry: the file, the format version, the kernel the
  metadata names (absent in format 3), the language version, and the source lines of
  every code cell in document order (line terminators dropped, everything else as it
  stands, blank lines and trailing blanks included).
\<close>

record notebook =
  nb_file :: string
  nbformat :: nat
  kernelspec_name :: "string option"
  language_version :: "string option"
  code_cells :: "string list list"

text \<open>
  The corpus has six documents in five files. The file \<^verbatim>\<open>elasticity_2D.ipynb\<close> holds two
  documents one after the other: the two-phase example, and after it a three-phase variant
  of the same example with metadata of its own; they are \<open>elasticity_2D\<close> and
  \<open>elasticity_2D_second\<close>. \<open>python_intro_checkpoint\<close> is the checkpoint copy of the
  Python introduction, and \<open>part_000\<close> is the homogenization notebook, a document in
  format 3 whose file name is not known. A quote or a backslash that a string literal
  cannot hold is spliced in as \<open>[CHR 0x27]\<close> or \<open>[CHR 0x5C]\<close>.
\<close>

definition cahn_hilliard :: notebook where
  \<open>cahn_hilliard = \<lparr>
     nb_file = ''src/notebooks/cahn_hilliard.ipynb'',
     nbformat = 4,
     kernelspec_name = Some ''python2'',
     language_version = Some ''2.7.9'',
     code_cells = [
       [''%matplotlib inline'',
        ''%load_ext autoreload'',
        ''%autoreload 2'',
        '''',
        ''import numpy as np'',
        ''import matplotlib.pyplot as plt''],
       [''import pymks'',
        ''from pymks.datasets import make_cahn_hilliard'',
        '''',
        ''n = 41'',
        ''n_samples = 400'',
        ''dt = 1e-2'',
        ''np.random.seed(99)'',
        ''= make_cahn_hilliard(n_samples=n_samples, size=(n, n), dt=dt)''],
       [''from pymks.tools import draw_concentrations'',
        '''',
        ''draw_concentrations((, ), labels=(\'Input\', \'Out\'))''],
       [''import sklearn'',
        ''from sklearn.cross_validation import train_test_split'',
        '''',
        ''split_shape = (X.shape[0],) + (np.product(X.shape[1:]),)'',
        ''= train_test_split(X.reshape(split_shape), y.reshape(split_shape),'',
        ''                                                    test_size=0.5, random_state=3)''],
       [''from pymks import MKSLocalizationModel'',
        ''from pymks.bases import PrimitiveBasis''],
       [''from sklearn.grid_search import GridSearchCV'',
        '''',
        ''parameters_to_tune = {\'n_states\': np.arange(2, 11)}'',
        ''prim_basis = PrimitiveBasis(2, [-1, 1])'',
        ''model = MKSLocalizationModel(prim_basis)'',
        ''gs = GridSearchCV(model, parameters_to_tune, cv=5, fit_params={\'size\': (n, n)})'',
        ''gs.fit(, )''],
       [''print(gs.best_estimator_)'',
        ''print(gs.score(, ))''],
       [''from pymks.tools import draw_gridscores'',
        '''',
        ''draw_gridscores(gs.grid_scores_, \'n_states\','',
        ''                score_label=\'R-squared\', param_label=\'L - Number of states\')''],
       [''model = MKSLocalizationModel(basis=PrimitiveBasis(6, [-1, 1]))'',
        ''model.fit(,)''],
       [''from pymks.tools import draw_coeff'',
        '''',
        ''draw_coeff()''],
       [''from pymks.datasets.cahn_hilliard_simulation import CahnHilliardSimulation'',
        ''np.random.seed(191)'',
        '''',
        ''phi0 = np.random.normal(0, 1e-9, (1, n, n))'',
        ''ch_sim = CahnHilliardSimulation(dt=dt)'',
        ''phi_sim = phi0.copy()'',
        ''phi_pred = phi0.copy()''],
       [''time_steps = 10'',
        '''',
        ''for ii in range(time_steps):'',
        ''    ch_sim.run(phi_sim)'',
        ''    phi_sim = ch_sim.response'',
        ''    phi_pred = model.predict(phi_pred)''],
       [''from pymks.tools import draw_concentrations_compare'',
        '''',
        ''draw_concentrations_compare((phi_sim[0], phi_pred[0]), '',
        ''                            labels=(\'Simulation\', \'MKS\'))''],
       [''m = 3 * n'',
        '''',
        ''phi0 = np.random.normal(0, 1e-9, (1, m, m))'',
        ''phi_sim = phi0.copy()'',
        ''phi_pred = phi0.copy()''],
       [''for ii in range(1000):'',
        ''    ch_sim.run(phi_sim)'',
        ''    phi_sim = ch_sim.response'',
        ''    phi_pred = model.predict(phi_pred)''],
       [''from pymks.tools import draw_concentrations_compare'']
     ] \<rparr>\<close>

definition checker_board :: notebook where
  \<open>checker_board = \<lparr>
     nb_file = ''src/notebooks/checker_board.ipynb'',
     nbformat = 4,
     kernelspec_name = Some ''python2'',
     language_version = Some ''2.7.9'',
     code_cells = [
       [''%matplotlib inline'',
        ''%load_ext autoreload'',
        ''%autoreload 2'',
        '''',
        ''import numpy as np'',
        ''import matplotlib.pyplot as plt''],
       [''from pymks.datasets import make_checkerboard_microstructure'',
        '''',
        '' = make_checkerboard_microstructure(square_size=, n_squares=)''],
       [''from pymks.tools import draw_microstructures'',
        '''',
        ''draw_microstructures()'',
        '''',
        ''print .shape''],
       [''from pymks.stats import autocorrelate'',
        ''from pymks import PrimitiveBasis'',
        '''',
        '' = PrimitiveBasis(n_states=)'',
        '' = .discretize()'',
        '' = autocorrelate(, periodic_axes=(0, 1))''],
       [''from pymks.tools import draw_autocorrelations'',
        '''',
        ''correlations = [(\'black\', \'black\'), (\'white\', \'white\')]'',
        ''draw_autocorrelations([0], autocorrelations=correlations)''],
       [''center = (.shape[1] + 1) / 2'',
        ''print \'Volume fraction of black phase\', [0, center, center, 0]'',
        ''print \'Volume fraction of white phase\', [0, center, center, 1]''],
       [''from pymks.stats import crosscorrelate'',
        '''',
        '' = crosscorrelate(, periodic_axes=(0, 1))''],
       [''from pymks.tools import draw_crosscorrelations'',
        '''',
        ''correlations = [(\'black\', \'white\')]'',
        ''draw_crosscorrelations([0], crosscorrelations=correlations)''],
       [''print \'Center value\', [0, center, center, 0]'']
     ] \<rparr>\<close>

definition elasticity_2D :: notebook where
  \<open>elasticity_2D = \<lparr>
     nb_file = ''src/notebooks/elasticity_2D.ipynb'',
     nbformat = 4,
     kernelspec_name = Some ''python2'',
     language_version = Some ''2.7.9'',
     code_cells = [
       [''%matplotlib inline'',
        ''%load_ext autoreload'',
        ''%autoreload 2'',
        '''',
        ''import numpy as np'',
        ''import matplotlib.pyplot as plt''],
       [''n = 21'',
        '''',
        ''from pymks.tools import draw_microstructures'',
        ''from pymks.datasets import make_delta_microstructures'',
        '''',
        ''X_delta = make_delta_microstructures(n_phases=2, size=(n, n))'',
        ''draw_microstructures(X_delta)''],
       [''from pymks.datasets import make_elastic_FE_strain_delta'',
        '''',
        ''elastic_modulus = (100, 120)'',
        ''poissons_ratio = (0.3, 0.3)'',
        ''macro_strain = 0.02'',
        ''size = (n, n)'',
        '''',
        ''= make_elastic_FE_strain_delta(elastic_modulus=elastic_modulus,'',
        ''                                                poissons_ratio=poissons_ratio,'',
        ''                                                size=size, macro_strain=macro_strain)''],
       [''from pymks.tools import draw_microstructure_strain'',
        '''',
        ''draw_microstructure_strain(,)''],
       [''from pymks import MKSLocalizationModel'',
        ''from pymks import PrimitiveBasis'',
        '''',
        ''= PrimitiveBasis(n_states=2, domain=[0, 1])'',
        ''model = MKSLocalizationModel(basis=)''],
       [''model.fit()''],
       [''from pymks.tools import draw_coeff'',
        '''',
        ''draw_coeff()''],
       [''from pymks.datasets import make_elastic_FE_strain_random'',
        '''',
        ''np.random.seed(99)'',
        '''',
        ''= make_elastic_FE_strain_random(n_samples=1, elastic_modulus=elastic_modulus,'',
        ''                                          poissons_ratio=poissons_ratio, size=size,'',
        ''                                          macro_strain=macro_strain)'',
        '''',
        ''draw_microstructure_strain()''],
       [''strain_predict = model.predict()''],
       [''from pymks.tools import draw_strains_compare'',
        '''',
        ''draw_strains_compare(, )''],
       [''from pymks.tools import draw_differences'',
        '''',
        ''draw_differences([], ["FE - MKS"])''],
       [''m = 3 * n'',
        ''size = (m, m)'',
        ''print size'',
        '''',
        ''= make_elastic_FE_strain_random(n_samples=1, elastic_modulus=elastic_modulus,'',
        ''                                          poissons_ratio=poissons_ratio, size=size,'',
        ''                                          macro_strain=macro_strain)'',
        ''draw_microstructure_strain()''],
       [''model.resize_coeff()''],
       [''draw_coeff()''],
       [''strain_predict = model.predict(X)'',
        '''',
        ''draw_strains_compare(strain[0], strain_predict[0])''],
       [],
       [''draw_differences([], ["FE - MKS, Big"])'']
     ] \<rparr>\<close>

definition elasticity_2D_second :: notebook where
  \<open>elasticity_2D_second = \<lparr>
     nb_file = ''src/notebooks/elasticity_2D.ipynb'',
     nbformat = 4,
     kernelspec_name = Some ''python2'',
     language_version = Some ''2.7.10'',
     code_cells = [
       [''%matplotlib inline'',
        ''%load_ext autoreload'',
        ''%autoreload 2'',
        '''',
        ''import numpy as np'',
        ''import matplotlib.pyplot as plt''],
       [''from pymks.datasets import make_delta_microstructures'',
        ''n = 21'',
        ''n_phases = 3'',
        ''''],
       [''from pymks.tools import draw_microstructures'',
        ''''],
       [''from pymks.datasets import make_elastic_FE_strain_delta'',
        '''',
        ''elastic_modulus = (80, 100, 120)'',
        ''poissons_ratio = (0.3, 0.3, 0.3)'',
        ''macro_strain = 0.02'',
        ''size = (n, n)'',
        '''',
        ''= make_elastic_FE_strain_delta(elastic_modulus=elastic_modulus,'',
        ''                                                      poissons_ratio=poissons_ratio,'',
        ''                                                      size=size, macro_strain=macro_strain)''],
       [''from pymks.tools import draw_microstructure_strain''],
       [''from pymks import MKSLocalizationModel'',
        ''from pymks import PrimitiveBasis''],
       [],
       [''from pymks.tools import draw_coeff''],
       [''from pymks.datasets import make_elastic_FE_strain_random'',
        '''',
        ''np.random.seed(101)''],
       [],
       [],
       [''from pymks.tools import draw_strains_compare'',
        ''''],
       [''from pymks.tools import draw_differences''],
       [''m = 3 * n '',
        ''size = (m, m)'',
        ''print size'',
        '''',
        ''= make_elastic_FE_strain_random(n_samples=1, elastic_modulus=elastic_modulus,'',
        ''                                          poissons_ratio=poissons_ratio, size=size,'',
        ''                                          macro_strain=macro_strain)''],
       [],
       [],
       ['''',
        ''''],
       [],
       []
     ] \<rparr>\<close>

definition python_intro_checkpoint :: notebook where
  \<open>python_intro_checkpoint = \<lparr>
     nb_file = ''src/notebooks/.ipynb_checkpoints/python_intro-checkpoint.ipynb'',
     nbformat = 4,
     kernelspec_name = Some ''python2'',
     language_version = Some ''2.7.9'',
     code_cells = [
       [],
       [''log10(10)''],
       [''import math'',
        '''',
        ''math.log10(10)''],
       [''? math.log10''],
       [''my_name = ''],
       [''intro = \'Hello, my name is '' @ [CHR 0x27],
        '''',
        ''print(intro + my_name + \'.\')''],
       [''first_initial = \'My first initial is '' @ [CHR 0x27],
        ''print(first_initial + my_name[0] + \'.\')''],
       [''initials = \'My initials are '' @ [CHR 0x27],
        '''',
        ''print(initials + my_name[0] + my_name[] + ".")''],
       [''import numpy as np'',
        '''',
        ''B = np.ones((3, 3))'',
        ''print(B)''],
       [],
       [''? np.dot''],
       [''N = '',
        ''A = np.eye(N) * 2'',
        ''x = np.arange(N)'',
        '''',
        ''print(\'A =\')'',
        ''print(A)'',
        ''print(\'x =\')'',
        ''print(x)'',
        '''',
        ''print(\'y =\')'',
        ''print(y)''],
       [],
       [''%matplotlib inline'',
        '''',
        ''# Code source: Jaques Grobler'',
        ''# License: BSD 3 clause'',
        '''',
        '''',
        ''import matplotlib.pyplot as plt'',
        ''from sklearn import datasets, linear_model'',
        '''',
        ''# Load the diabetes dataset'',
        ''diabetes = datasets.load_diabetes()'',
        '''',
        '''',
        ''# Use only one feature'',
        ''diabetes_X = diabetes.data[:, np.newaxis]'',
        ''diabetes_X_temp = diabetes_X[:, :, 2]'',
        '''',
        ''# Split the data into training/testing sets'',
        ''diabetes_X_train = diabetes_X_temp[:-20]'',
        ''diabetes_X_test = diabetes_X_temp[-20:]'',
        '''',
        ''# Split the targets into training/testing sets'',
        ''diabetes_y_train = diabetes.target[:-20]'',
        ''diabetes_y_test = diabetes.target[-20:]'',
        '''',
        ''# Create linear regression object'',
        ''regr = linear_model.LinearRegression()'',
        '''',
        ''# Train the model using the training sets'',
        ''# regr.fit(diabetes_X_train, diabetes_y_train)'',
        '''',
        ''# Predict result'',
        ''# y = regr.predict(diabetes_X_test)'',
        '''',
        ''# The coefficients'',
        ''print(\'Coefficients: '' @ [CHR 0x5C] @ ''n\', regr.coef_)'',
        ''# The mean square error'',
        ''print("Residual sum of squares: %.2f"'',
        ''      % np.mean((y - diabetes_y_test) ** 2))'',
        ''# Explained variance score: 1 is perfect prediction'',
        ''print(\'Variance score: %.2f\' % regr.score(diabetes_X_test, diabetes_y_test))'',
        '''',
        ''# Plot outputs'',
        ''plt.scatter(diabetes_X_test, diabetes_y_test,  color=\'black\')'',
        ''plt.plot(diabetes_X_test, y, color=\'blue\', linewidth=3)'',
        '''',
        ''plt.xticks(())'',
        ''plt.yticks(())'',
        '''',
        ''plt.show()''],
       []
     ] \<rparr>\<close>

definition part_000 :: notebook where
  \<open>part_000 = \<lparr>
     nb_file = ''src/unnamed/part_000'',
     nbformat = 3,
     kernelspec_name = None,
     language_version = None,
     code_cells = [
       [''%matplotlib inline'',
        ''%load_ext autoreload'',
        ''%autoreload 2'',
        '''',
        ''import numpy as np'',
        ''import matplotlib.pyplot as plt''],
       [''from pymks.datasets import make_elastic_stress_random'',
        ''sample_size = 200'',
        ''grain_size = [(15, 2), (2, 15), (7, 7), (8, 3), (3, 9), (2, 2)]'',
        ''n_samples = [sample_size] * 6'',
        ''elastic_modulus = (410, 200)'',
        ''poissons_ratio = (0.28, 0.3)'',
        ''macro_strain = 0.001'',
        ''size = (21, 21)'',
        '''',
        ''X, y = ''],
       [''from pymks.tools import draw_microstructures'',
        ''X_examples = X[::sample_size]''],
       [],
       [''from pymks import MKSHomogenizationModel'',
        ''from pymks import PrimitiveBasis'',
        '''',
        ''prim_basis = '',
        ''model = ''],
       [''model.n_components = 40'',
        ''model.fit''],
       [''from pymks.tools import draw_component_variance'',
        ''''],
       [''from sklearn.cross_validation import train_test_split'',
        '''',
        ''flat_shape = (X.shape[0],) + (np.prod(X.shape[1:]),)'',
        '''',
        ''''],
       [''from sklearn.grid_search import GridSearchCV'',
        '''',
        ''params_to_tune = {\'degree\': np.arange(1, 4), \'n_components\': np.arange(1, 8)}'',
        ''fit_params = {\'size\': X[0].shape, \'periodic_axes\': [0, 1]}'',
        ''gs = ''],
       [''from pymks.tools import draw_gridscores_matrix'',
        '''',
        ''draw_gridscores_matrix''],
       [''print(\'Order of Polynomial\'), (gs.best_estimator_.degree)'',
        ''print(\'Number of Components\'), (gs.best_estimator_.n_components)'',
        ''print(\'R-squared Value\'), (gs.score(X_test, y_test))''],
       [''from pymks.tools import draw_gridscores'',
        '''',
        ''gs_deg_1 = [x for x in gs.grid_scores_ '' @ [CHR 0x5C],
        ''            if x.parameters[\'degree\'] == 1][2:-1]'',
        ''gs_deg_2 = [x for x in gs.grid_scores_ '' @ [CHR 0x5C],
        ''            if x.parameters[\'degree\'] == 2][2:-1]'',
        ''gs_deg_3 = [x for x in gs.grid_scores_ '' @ [CHR 0x5C],
        ''            if x.parameters[\'degree\'] == 3][2:-1]'',
        '''',
        ''draw_gridscores([gs_deg_1,  gs_deg_2, gs_deg_3], \'n_components\','',
        ''                data_labels=[\'1st Order\', \'2nd Order\', \'3rd Order\'],'',
        ''                colors=[\'#f46d43\', \'#1a9641\', \'#762a83\'],'',
        ''                param_label=\'Number of Components\', score_label=\'R-Squared\')''],
       [''model = gs.best_estimator_'',
        ''model.fit(X, y, periodic_axes=[0, 1])''],
       [''test_sample_size = 20'',
        ''n_samples = [test_sample_size] * 6'',
        ''X_new, y_new = ''],
       [''y_predict = ''],
       [''from pymks.tools import draw_components'',
        '''',
        ''draw_components([model.reduced_fit_data[:, :2],'',
        ''                 model.reduced_predict_data[:, :2]],'',
        ''                [\'Training Data\', \'Testing Data\'])''],
       [''from sklearn.metrics import r2_score'',
        ''print(\'R-squared\'), (model.score(X_new, y_new, periodic_axes=[0, 1]))''],
       [''# Goodness of fit graph'',
        '''',
        ''from pymks.tools import draw_goodness_of_fit'',
        '''',
        ''fit_data = '',
        ''pred_data = '',
        ''draw_goodness_of_fit(fit_data, pred_data, [\'Training Data\', \'Testing Data\'])'']
     ] \<rparr>\<close>

section \<open>Lexical structure of a code cell\<close>

text \<open>
  The cells are Python 2 source that the IPython kernel reads. The kernel first splits a
  cell into logical lines: a physical line that starts with \<^verbatim>\<open>%\<close>, \<^verbatim>\<open>?\<close> or \<^verbatim>\<open>!\<close>
  outside any bracket is an IPython command and is taken whole; every other line is cut
  into Python tokens; a line that ends inside an open bracket or with a backslash goes on
  in the next line; comments and blank lines yield nothing. \<open>lex_cell\<close> models this
  and returns the logical lines of a cell, each as its list of tokens. \<open>Newline\<close> stands
  for the boundary of a logical line where a neighbouring token is asked for.
\<close>

datatype token =
    Name string
  | Keyword string
  | Number string
  | Str string
  | Op string
  | Magic string
  | Newline

definition py_keywords :: "string list" where
  "py_keywords = [''and'', ''as'', ''assert'', ''break'', ''class'', ''continue'', ''def'',
     ''del'', ''elif'', ''else'', ''except'', ''exec'', ''finally'', ''for'', ''from'',
     ''global'', ''if'', ''import'', ''in'', ''is'', ''lambda'', ''not'', ''or'', ''pass'',
     ''print'', ''raise'', ''return'', ''try'', ''while'', ''with'', ''yield'']"

definition is_digit :: "char \<Rightarrow> bool" where
  "is_digit c = (c \<in> set ''0123456789'')"

definition is_letter :: "char \<Rightarrow> bool" where
  "is_letter c =
     (c \<in> set ''abcdefghijklmnopqrstuvwxyzABCDEFGHIJKLMNOPQRSTUVWXYZ_'')"

definition is_blank :: "char \<Rightarrow> bool" where
  "is_blank c = (c = CHR '' '' \<or> c = CHR 0x09)"

definition two_char_ops :: "string list" where
  "two_char_ops = [''=='', ''!='', ''<='', ''>='', ''**'', ''//'', ''<<'', ''>>'',
     ''+='', ''-='', ''*='', ''/='', ''%='']"

datatype mode =
    Idle
  | InWord string
  | InNumber string
  | InDot
  | InString char string
  | InEscape char string
  | InOp char
  | InComment

definition word_token :: "string \<Rightarrow> token" where
  "word_token w = (if w \<in> set py_keywords then Keyword w else Name w)"

definition start :: "char \<Rightarrow> mode \<times> token list" where
  "start c =
     (if is_blank c then (Idle, [])
      else if is_letter c then (InWord [c], [])
      else if is_digit c then (InNumber [c], [])
      else if c = CHR ''.'' then (InDot, [])
      else if c = CHR 0x27 \<or> c = CHR 0x22 then (InString c [], [])
      else if c = CHR ''#'' then (InComment, [])
      else if c \<in> set ''=!<>*/+-%'' then (InOp c, [])
      else (Idle, [Op [c]]))"

fun flush :: "mode \<Rightarrow> token list" where
  "flush Idle = []"
| "flush (InWord w) = [word_token w]"
| "flush (InNumber n) = [Number n]"
| "flush InDot = [Op ''.'']"
| "flush (InString q s) = [Str s]"
| "flush (InEscape q s) = [Str s]"
| "flush (InOp c) = [Op [c]]"
| "flush InComment = []"

fun scan :: "mode \<Rightarrow> string \<Rightarrow> token list" where
  "scan m [] = flush m"
| "scan Idle (c # cs) = (case start c of (m, ts) \<Rightarrow> ts @ scan m cs)"
| "scan (InWord w) (c # cs) =
     (if is_letter c \<or> is_digit c then scan (InWord (w @ [c])) cs
      else word_token w # (case start c of (m, ts) \<Rightarrow> ts @ scan m cs))"
| "scan (InNumber n) (c # cs) =
     (if is_digit c \<or> is_letter c \<or> c = CHR ''.''
         \<or> ((c = CHR ''-'' \<or> c = CHR ''+'') \<and> (last n = CHR ''e'' \<or> last n = CHR ''E''))
      then scan (InNumber (n @ [c])) cs
      else Number n # (case start c of (m, ts) \<Rightarrow> ts @ scan m cs))"
| "scan InDot (c # cs) =
     (if is_digit c then scan (InNumber [CHR ''.'', c]) cs
      else Op ''.'' # (case start c of (m, ts) \<Rightarrow> ts @ scan m cs))"
| "scan (InString q s) (c # cs) =
     (if c = q then Str s # scan Idle cs
      else if c = CHR 0x5C then scan (InEscape q (s @ [c])) cs
      else scan (InString q (s @ [c])) cs)"
| "scan (InEscape q s) (c # cs) = scan (InString q (s @ [c])) cs"
| "scan (InOp b) (c # cs) =
     (if [b, c] \<in> set two_char_ops then Op [b, c] # scan Idle cs
      else Op [b] # (case start c of (m, ts) \<Rightarrow> ts @ scan m cs))"
| "scan InComment (c # cs) = scan InComment cs"

definition lstrip :: "string \<Rightarrow> string" where
  "lstrip s = dropWhile is_blank s"

definition is_special_line :: "string \<Rightarrow> bool" where
  "is_special_line l =
     (case lstrip l of [] \<Rightarrow> False
      | c # _ \<Rightarrow> c = CHR ''%'' \<or> c = CHR ''?'' \<or> c = CHR ''!'')"

fun depth_after :: "int \<Rightarrow> token list \<Rightarrow> int" where
  "depth_after d [] = d"
| "depth_after d (t # ts) =
     (if t = Op ''('' \<or> t = Op ''['' \<or> t = Op ''{'' then depth_after (d + 1) ts
      else if t = Op '')'' \<or> t = Op '']'' \<or> t = Op ''}'' then depth_after (d - 1) ts
      else depth_after d ts)"

fun join_lines :: "token list \<Rightarrow> (string \<times> token list) list \<Rightarrow> token list list" where
  "join_lines cur [] = (if cur = [] then [] else [cur])"
| "join_lines cur ((l, ts) # rest) =
     (if cur = [] \<and> is_special_line l then [Magic (lstrip l)] # join_lines [] rest
      else if ts = [] then join_lines cur rest
      else if last ts = Op [CHR 0x5C] then join_lines (cur @ butlast ts) rest
      else if depth_after 0 (cur @ ts) \<le> 0 then (cur @ ts) # join_lines [] rest
      else join_lines (cur @ ts) rest)"

definition lex_cell :: "string list \<Rightarrow> token list list" where
  "lex_cell c = join_lines [] (map (\<lambda>l. (l, scan Idle l)) c)"

definition lexed :: "notebook \<Rightarrow> token list list list" where
  "lexed nb = map lex_cell (code_cells nb)"

definition all_statements :: "notebook \<Rightarrow> token list list" where
  "all_statements nb = concat (lexed nb)"


section \<open>Imports and calls\<close>

definition corpus :: "notebook list" where
  "corpus = [cahn_hilliard, checker_board, elasticity_2D, elasticity_2D_second,
     python_intro_checkpoint, part_000]"

fun split_on :: "'a \<Rightarrow> 'a list \<Rightarrow> 'a list \<Rightarrow> 'a list list" where
  "split_on sep acc [] = (if acc = [] then [] else [acc])"
| "split_on sep acc (t # ts) =
     (if t = sep then (if acc = [] then split_on sep [] ts else acc # split_on sep [] ts)
      else split_on sep (acc @ [t]) ts)"

definition is_name :: "token \<Rightarrow> bool" where
  "is_name t = (case t of Name _ \<Rightarrow> True | _ \<Rightarrow> False)"

definition name_of :: "token \<Rightarrow> string" where
  "name_of t = (case t of Name n \<Rightarrow> n | _ \<Rightarrow> [])"

fun dotted_tail :: "string \<Rightarrow> token list \<Rightarrow> string \<times> token list" where
  "dotted_tail m (d # n # rest) =
     (if d = Op ''.'' \<and> is_name n then dotted_tail (m @ ''.'' @ name_of n) rest
      else (m, d # n # rest))"
| "dotted_tail m ts = (m, ts)"

definition dotted :: "token list \<Rightarrow> string \<times> token list" where
  "dotted ts =
     (if ts \<noteq> [] \<and> is_name (hd ts) then dotted_tail (name_of (hd ts)) (tl ts)
      else ([], ts))"

definition module_root :: "string \<Rightarrow> string" where
  "module_root m = takeWhile (\<lambda>c. c \<noteq> CHR ''.'') m"

definition import_item :: "string \<Rightarrow> token list \<Rightarrow> (string \<times> string) list" where
  "import_item m part =
     (if length part = 1 \<and> is_name (part ! 0) then [(name_of (part ! 0), m)]
      else if length part = 3 \<and> is_name (part ! 0) \<and> part ! 1 = Keyword ''as''
              \<and> is_name (part ! 2)
      then [(name_of (part ! 2), m)]
      else [])"

definition module_alias :: "token list \<Rightarrow> (string \<times> string) list" where
  "module_alias part =
     (case dotted part of (m, rest) \<Rightarrow>
        if m = [] then []
        else if rest = [] then [(module_root m, m)]
        else if length rest = 2 \<and> rest ! 0 = Keyword ''as'' \<and> is_name (rest ! 1)
        then [(name_of (rest ! 1), m)]
        else [])"

definition stmt_imports :: "token list \<Rightarrow> (string \<times> string) list" where
  "stmt_imports s =
     (if take 1 s = [Keyword ''from''] then
        (case dotted (drop 1 s) of (m, r) \<Rightarrow>
           if take 1 r = [Keyword ''import'']
           then concat (map (import_item m) (split_on (Op '','') [] (drop 1 r)))
           else [])
      else if take 1 s = [Keyword ''import'']
      then concat (map module_alias (split_on (Op '','') [] (drop 1 s)))
      else [])"

definition imported_modules :: "notebook \<Rightarrow> string list" where
  "imported_modules nb = remdups (map snd (concat (map stmt_imports (all_statements nb))))"

fun bare_calls :: "token \<Rightarrow> token list \<Rightarrow> string list" where
  "bare_calls p [] = []"
| "bare_calls p (t # ts) =
     (if is_name t \<and> take 1 ts = [Op ''(''] \<and> p \<noteq> Op ''.'' then [name_of t] else [])
     @ bare_calls t ts"

fun method_calls :: "token \<Rightarrow> token list \<Rightarrow> string list" where
  "method_calls p [] = []"
| "method_calls p (t # ts) =
     (if is_name t \<and> take 1 ts = [Op ''(''] \<and> p = Op ''.'' then [name_of t] else [])
     @ method_calls t ts"

definition called_names :: "notebook \<Rightarrow> string list" where
  "called_names nb =
     remdups (concat (map (\<lambda>s. bare_calls Newline s @ method_calls Newline s)
                        (all_statements nb)))"

fun origins ::
  "(string \<times> string) list \<Rightarrow> (string list \<times> (string \<times> string) list) list
     \<Rightarrow> (string \<times> string option) list" where
  "origins env [] = []"
| "origins env ((called, imported) # rest) =
     map (\<lambda>f. (f, map_of env f)) called @ origins (imported @ env) rest"

definition call_origins :: "notebook \<Rightarrow> (string \<times> string option) list" where
  "call_origins nb =
     origins [] (map (\<lambda>s. (bare_calls Newline s, stmt_imports s)) (all_statements nb))"


section \<open>Cells the parser rejects\<close>

text \<open>
  The kernel compiles a whole cell before it runs any of it. The notebooks leave blanks
  for the reader, and a blank makes a logical line that no Python grammar accepts: an
  assignment with nothing before or after the \<^verbatim>\<open>=\<close>, an argument slot with nothing
  in it, an attribute or a subscript of nothing. The predicates below recognise these
  shapes on neighbouring tokens; \<open>syntax_error\<close> says that a cell has at least one of
  them, or a logical line whose brackets do not match.
\<close>

definition ends_operand :: "token \<Rightarrow> bool" where
  "ends_operand t =
     (case t of Name _ \<Rightarrow> True | Number _ \<Rightarrow> True | Str _ \<Rightarrow> True
      | Op s \<Rightarrow> s \<in> set ['')'', '']'', ''}''] | _ \<Rightarrow> False)"

definition starts_operand :: "token \<Rightarrow> bool" where
  "starts_operand t =
     (case t of Name _ \<Rightarrow> True | Number _ \<Rightarrow> True | Str _ \<Rightarrow> True
      | Op s \<Rightarrow> s \<in> set [''('', ''['', ''{'', ''-'', ''+'', ''~'']
      | Keyword k \<Rightarrow> k \<in> set [''not'', ''lambda'', ''yield'']
      | _ \<Rightarrow> False)"

definition empty_target :: "token \<Rightarrow> token \<Rightarrow> bool" where
  "empty_target p t = (t = Op ''='' \<and> \<not> ends_operand p)"

definition empty_value :: "token \<Rightarrow> token \<Rightarrow> bool" where
  "empty_value p t = (p = Op ''='' \<and> \<not> starts_operand t)"

definition empty_slot :: "token \<Rightarrow> token \<Rightarrow> bool" where
  "empty_slot p t = (t = Op '','' \<and> \<not> ends_operand p \<and> p \<noteq> Op '':'')"

definition empty_receiver :: "token \<Rightarrow> token \<Rightarrow> bool" where
  "empty_receiver p t = (t = Op ''.'' \<and> \<not> ends_operand p \<and> p \<noteq> Keyword ''from'')"

definition empty_subscript :: "token \<Rightarrow> token \<Rightarrow> token \<Rightarrow> bool" where
  "empty_subscript q p t = (t = Op '']'' \<and> p = Op ''['' \<and> ends_operand q)"

definition blank_at :: "token \<Rightarrow> token \<Rightarrow> token \<Rightarrow> bool" where
  "blank_at q p t =
     (empty_target p t \<or> empty_value p t \<or> empty_slot p t \<or> empty_receiver p t
      \<or> empty_subscript q p t)"

fun exists_adjacent :: "(token \<Rightarrow> token \<Rightarrow> bool) \<Rightarrow> token \<Rightarrow> token list \<Rightarrow> bool" where
  "exists_adjacent P p [] = False"
| "exists_adjacent P p (t # ts) = (if P p t then True else exists_adjacent P t ts)"

fun exists_triple ::
  "(token \<Rightarrow> token \<Rightarrow> token \<Rightarrow> bool) \<Rightarrow> token \<Rightarrow> token \<Rightarrow> token list \<Rightarrow> bool" where
  "exists_triple P q p [] = False"
| "exists_triple P q p (t # ts) = (if P q p t then True else exists_triple P p t ts)"

definition malformed :: "token list \<Rightarrow> bool" where
  "malformed s =
     (exists_triple blank_at Newline Newline (s @ [Newline]) \<or> depth_after 0 s \<noteq> 0)"

definition syntax_error :: "token list list \<Rightarrow> bool" where
  "syntax_error cell = list_ex malformed cell"



section \<open>Running a document in a kernel\<close>

text \<open>
  A document is run in a kernel of its own, which starts with the Python builtins bound
  and nothing else. Cells are submitted in document order. A cell the parser rejects
  raises \<open>SyntaxError\<close> and runs nothing. The statements of an accepted cell run in
  order: a call of a bare name that is not bound raises \<open>NameError\<close>; whether a
  statement that reaches the libraries succeeds is not decided by the documents, so it is
  a parameter \<open>lib\<close> of the run; a statement that succeeds binds the names it imports
  or assigns. The run stops at the first error.
\<close>

datatype py_error = SyntaxError | NameError | LibraryError

datatype run_result = Finished | Failed nat py_error

record kernel =
  names :: "string list"
  executed :: "token list list"

definition python_builtins :: "string list" where
  "python_builtins = [''abs'', ''all'', ''any'', ''bool'', ''dict'', ''dir'', ''enumerate'',
     ''float'', ''int'', ''isinstance'', ''len'', ''list'', ''map'', ''max'', ''min'',
     ''open'', ''range'', ''reversed'', ''round'', ''set'', ''sorted'', ''str'', ''sum'',
     ''tuple'', ''type'', ''xrange'', ''zip'']"

definition fresh_kernel :: kernel where
  "fresh_kernel = \<lparr> names = python_builtins, executed = [] \<rparr>"

definition assigned_names :: "token list \<Rightarrow> string list" where
  "assigned_names s =
     (let lhs = takeWhile (\<lambda>t. t \<noteq> Op ''='') s in
      if length lhs < length s \<and> list_all (\<lambda>t. is_name t \<or> t = Op '','') lhs
      then map name_of (filter is_name lhs)
      else if take 1 s = [Keyword ''for''] \<and> take 1 (drop 2 s) = [Keyword ''in'']
              \<and> is_name (s ! 1)
      then [name_of (s ! 1)]
      else [])"

definition bound_by :: "token list \<Rightarrow> string list" where
  "bound_by s = map fst (stmt_imports s) @ assigned_names s"

definition unbound_calls :: "string list \<Rightarrow> token list \<Rightarrow> string list" where
  "unbound_calls env s = filter (\<lambda>f. f \<notin> set env) (bare_calls Newline s)"

fun run_statements ::
  "(token list \<Rightarrow> bool) \<Rightarrow> kernel \<Rightarrow> token list list \<Rightarrow> py_error option \<times> kernel" where
  "run_statements lib k [] = (None, k)"
| "run_statements lib k (s # ss) =
     (if unbound_calls (names k) s \<noteq> [] then (Some NameError, k)
      else if \<not> lib s then (Some LibraryError, k)
      else run_statements lib
             (k\<lparr> names := bound_by s @ names k, executed := executed k @ [s] \<rparr>) ss)"

definition run_cell ::
  "(token list \<Rightarrow> bool) \<Rightarrow> kernel \<Rightarrow> token list list \<Rightarrow> py_error option \<times> kernel" where
  "run_cell lib k cell =
     (if syntax_error cell then (Some SyntaxError, k) else run_statements lib k cell)"

fun run_cells ::
  "(token list \<Rightarrow> bool) \<Rightarrow> kernel \<Rightarrow> nat \<Rightarrow> token list list list \<Rightarrow> run_result \<times> kernel" where
  "run_cells lib k i [] = (Finished, k)"
| "run_cells lib k i (c # cs) =
     (case run_cell lib k c of
        (Some e, k') \<Rightarrow> (Failed i e, k')
      | (None, k') \<Rightarrow> run_cells lib k' (Suc i) cs)"

definition run_all :: "(token list \<Rightarrow> bool) \<Rightarrow> notebook \<Rightarrow> run_result \<times> kernel" where
  "run_all lib nb = run_cells lib fresh_kernel 0 (lexed nb)"

definition rejected_cells :: "notebook \<Rightarrow> bool list" where
  "rejected_cells nb = map syntax_error (lexed nb)"

fun first_index :: "nat \<Rightarrow> bool list \<Rightarrow> nat option" where
  "first_index i [] = None"
| "first_index i (b # bs) = (if b then Some i else first_index (Suc i) bs)"

definition first_rejected :: "notebook \<Rightarrow> nat option" where
  "first_rejected nb = first_index 0 (rejected_cells nb)"

section \<open>Random number generation\<close>

text \<open>
  The documents draw random numbers through NumPy's global generator: directly with
  \<^verbatim>\<open>np.random.normal\<close>, and through the dataset generators of the library. A call of
  \<^verbatim>\<open>np.random.seed\<close> with a literal argument resets the generator to a state that
  depends on the argument only. \<open>random_events\<close> lists, in document order, the
  reseedings and the draws of a document; \<open>replay\<close> runs such a list from a given
  generator state and collects what the draws return.
\<close>

datatype rng_event = Seed "nat option" | Draw string

fun position :: "'a \<Rightarrow> 'a list \<Rightarrow> nat option" where
  "position x [] = None"
| "position x (y # ys) = (if x = y then Some 0 else map_option Suc (position x ys))"

definition digit_value :: "char \<Rightarrow> nat option" where
  "digit_value c = position c ''0123456789''"

fun decimal :: "nat \<Rightarrow> string \<Rightarrow> nat option" where
  "decimal acc [] = Some acc"
| "decimal acc (c # cs) =
     (case digit_value c of None \<Rightarrow> None | Some d \<Rightarrow> decimal (10 * acc + d) cs)"

definition np_random :: "token list \<Rightarrow> string option" where
  "np_random ts =
     (if take 4 ts = [Name ''np'', Op ''.'', Name ''random'', Op ''.'']
         \<and> take 1 (drop 5 ts) = [Op ''(''] \<and> is_name (ts ! 4)
      then Some (name_of (ts ! 4)) else None)"

definition random_generators :: "string list" where
  "random_generators = [''make_elastic_FE_strain_random'', ''make_cahn_hilliard'']"

definition seed_argument :: "token list \<Rightarrow> nat option" where
  "seed_argument ts =
     (if take 1 (drop 1 ts) = [Op '')'']
      then (case hd ts of Number k \<Rightarrow> decimal 0 k | _ \<Rightarrow> None)
      else None)"

fun rng_events :: "token \<Rightarrow> token list \<Rightarrow> rng_event list" where
  "rng_events p [] = []"
| "rng_events p (t # ts) =
     (if t = Name ''np'' then
        (case np_random (t # ts) of
           Some f \<Rightarrow>
             (if p = Op ''.'' then []
              else if f = ''seed'' then [Seed (seed_argument (drop 5 ts))]
              else [Draw (''np.random.'' @ f)])
         | None \<Rightarrow> [])
      else if is_name t \<and> take 1 ts = [Op ''(''] \<and> p \<noteq> Op ''.''
              \<and> name_of t \<in> set random_generators
      then [Draw (name_of t)]
      else [])
     @ rng_events t ts"

definition random_events :: "notebook \<Rightarrow> rng_event list" where
  "random_events nb = concat (map (rng_events Newline) (all_statements nb))"

fun seeded :: "bool \<Rightarrow> rng_event list \<Rightarrow> bool" where
  "seeded s [] = True"
| "seeded s (Seed (Some k) # es) = seeded True es"
| "seeded s (Seed None # es) = seeded False es"
| "seeded s (Draw f # es) = (s \<and> seeded s es)"

fun replay ::
  "(nat \<Rightarrow> 'r) \<Rightarrow> (string \<Rightarrow> 'r \<Rightarrow> 'v \<times> 'r) \<Rightarrow> 'r \<Rightarrow> rng_event list \<Rightarrow> 'v list" where
  "replay reseed gen r [] = []"
| "replay reseed gen r (Seed (Some k) # es) = replay reseed gen (reseed k) es"
| "replay reseed gen r (Seed None # es) = replay reseed gen r es"
| "replay reseed gen r (Draw f # es) =
     (case gen f r of (v, r') \<Rightarrow> v # replay reseed gen r' es)"


section \<open>Properties of documents\<close>


definition keyword_in :: "string list \<Rightarrow> token \<Rightarrow> bool" where
  "keyword_in ks t = (case t of Keyword k \<Rightarrow> k \<in> set ks | _ \<Rightarrow> False)"

definition definition_keywords :: "string list" where
  "definition_keywords = [''def'', ''class'', ''lambda'']"

definition from_library :: "string list \<Rightarrow> string \<times> string option \<Rightarrow> bool" where
  "from_library roots call =
     (case snd call of
        Some m \<Rightarrow> module_root m \<in> set roots
      | None \<Rightarrow> fst call \<in> set python_builtins)"

definition calls :: "notebook \<Rightarrow> string \<Rightarrow> bool" where
  "calls nb f = list_ex (\<lambda>s. f \<in> set (bare_calls Newline s)) (all_statements nb)"

definition calls_method :: "notebook \<Rightarrow> string \<Rightarrow> bool" where
  "calls_method nb f = list_ex (\<lambda>s. f \<in> set (method_calls Newline s)) (all_statements nb)"

definition imports_from :: "notebook \<Rightarrow> string \<Rightarrow> string \<Rightarrow> bool" where
  "imports_from nb m f = list_ex (\<lambda>s. (f, m) \<in> set (stmt_imports s)) (all_statements nb)"

definition error_keywords :: "string list" where
  "error_keywords = [''try'', ''except'', ''finally'', ''raise'', ''assert'']"

definition branch_keywords :: "string list" where
  "branch_keywords = [''if'', ''elif'', ''else'', ''while'', ''with'']"

definition branches :: "token list \<Rightarrow> bool" where
  "branches s = (s \<noteq> [] \<and> keyword_in branch_keywords (hd s))"




definition magics :: "notebook \<Rightarrow> string list" where
  "magics nb =
     concat (map (\<lambda>s. case s of [Magic l] \<Rightarrow> [l] | _ \<Rightarrow> []) (all_statements nb))"

definition known_magics :: "string list" where
  "known_magics = [''%matplotlib inline'', ''%load_ext autoreload'', ''%autoreload 2'',
     ''? math.log10'', ''? np.dot'']"


definition file_writers :: "string list" where
  "file_writers = [''open'', ''file'', ''write'', ''writelines'', ''save'', ''savez'',
     ''savetxt'', ''tofile'', ''dump'', ''dumps'', ''to_csv'', ''to_pickle'', ''savefig'',
     ''imsave'', ''makedirs'', ''mkdir'', ''remove'', ''rename'', ''connect'', ''commit'',
     ''execute'']"

definition storage_modules :: "string list" where
  "storage_modules = [''pickle'', ''cPickle'', ''joblib'', ''shelve'', ''sqlite3'', ''h5py'',
     ''json'', ''csv'', ''io'', ''os'', ''shutil'', ''tempfile'', ''urllib'', ''urllib2'',
     ''requests'', ''socket'']"




definition disjoint :: "string list \<Rightarrow> string list \<Rightarrow> bool" where
  "disjoint xs ys = list_all (\<lambda>x. x \<notin> set ys) xs"


definition fixed_seeds :: "nat list" where
  "fixed_seeds = [99, 191, 101]"

definition seed_is_fixed :: "rng_event \<Rightarrow> bool" where
  "seed_is_fixed e =
     (case e of Seed k \<Rightarrow> k \<in> set (map Some fixed_seeds) | Draw _ \<Rightarrow> True)"

definition happy_path :: "token list \<Rightarrow> bool" where
  "happy_path s = True"

definition statements_before :: "nat \<Rightarrow> notebook \<Rightarrow> token list list" where
  "statements_before j nb = concat (take j (lexed nb))"

definition stops_at_blank :: "(token list \<Rightarrow> bool) \<Rightarrow> notebook \<Rightarrow> bool" where
  "stops_at_blank lib nb =
     (case first_rejected nb of
        None \<Rightarrow> False
      | Some j \<Rightarrow>
          fst (run_all lib nb) = Failed j SyntaxError
          \<and> executed (snd (run_all lib nb)) = statements_before j nb)"

definition stops_by_blank :: "(token list \<Rightarrow> bool) \<Rightarrow> notebook \<Rightarrow> bool" where
  "stops_by_blank lib nb =
     (case first_rejected nb of
        None \<Rightarrow> False
      | Some j \<Rightarrow>
          (case fst (run_all lib nb) of
             Finished \<Rightarrow> False
           | Failed i e \<Rightarrow> (i < j \<or> (i = j \<and> e = SyntaxError)))
          \<and> prefix (executed (snd (run_all lib nb))) (statements_before j nb))"


section \<open>Where a call comes from\<close>

text \<open>
  A call site is a name followed by an opening parenthesis. Its root is the first name of
  the dotted chain it ends (\<^verbatim>\<open>ch_sim\<close> for \<^verbatim>\<open>ch_sim.run(phi_sim)\<close>, the name itself for a
  bare call); a call whose receiver is not a dotted chain of names, or is missing, has no
  root. \<open>call_trace\<close> resolves the root of every call of a document against the text
  before it, in document order: an import binds a name to its module, an assignment binds
  its targets to where the first name of the assigned expression comes from, and a name
  that nothing has bound is a builtin or is unbound. \<open>Builtin\<close> also stands for a
  value that the cell writes as a literal.
\<close>

datatype origin = Library string | Builtin | Unbound

fun call_roots :: "token \<Rightarrow> string option \<Rightarrow> token list \<Rightarrow> (string \<times> string option) list" where
  "call_roots p r [] = []"
| "call_roots p r (t # ts) =
     (if is_name t then
        (if p = Op ''.'' then
           (if take 1 ts = [Op ''(''] then [(name_of t, r)] else []) @ call_roots t r ts
         else
           (if take 1 ts = [Op ''(''] then [(name_of t, Some (name_of t))] else [])
           @ call_roots t (Some (name_of t)) ts)
      else if t = Op ''.'' \<and> is_name p then call_roots t r ts
      else call_roots t None ts)"

definition resolve :: "(string \<times> origin) list \<Rightarrow> string option \<Rightarrow> origin" where
  "resolve env r =
     (case r of
        None \<Rightarrow> Unbound
      | Some n \<Rightarrow>
          (case map_of env n of
             Some out \<Rightarrow> out
           | None \<Rightarrow> if n \<in> set python_builtins then Builtin else Unbound))"

definition assigned_value :: "token list \<Rightarrow> token list" where
  "assigned_value s =
     (if take 1 s = [Keyword ''for''] then drop 3 s
      else drop 1 (dropWhile (\<lambda>t. t \<noteq> Op ''='') s))"

definition value_origin :: "(string \<times> origin) list \<Rightarrow> token list \<Rightarrow> origin" where
  "value_origin env v =
     (if v = [] then Unbound
      else if is_name (hd v) then resolve env (Some (name_of (hd v)))
      else Builtin)"

fun trace ::
  "(string \<times> origin) list
     \<Rightarrow> ((string \<times> string option) list \<times> (string \<times> string) list \<times> string list
          \<times> token list) list
     \<Rightarrow> (string \<times> origin) list" where
  "trace env [] = []"
| "trace env ((sites, imported, targets, v) # rest) =
     map (\<lambda>c. (fst c, resolve env (snd c))) sites
     @ trace (map (\<lambda>i. (fst i, Library (snd i))) imported
              @ map (\<lambda>n. (n, value_origin env v)) targets @ env) rest"

definition call_trace :: "notebook \<Rightarrow> (string \<times> origin) list" where
  "call_trace nb =
     trace []
       (map (\<lambda>s. (call_roots Newline None s, stmt_imports s, assigned_names s,
                   take 1 (assigned_value s)))
          (all_statements nb))"

definition external_packages :: "string list" where
  "external_packages = [''pymks'', ''sklearn'', ''numpy'', ''matplotlib'', ''math'']"

definition delegated :: "string \<times> origin \<Rightarrow> bool" where
  "delegated c =
     (case snd c of
        Library m \<Rightarrow> module_root m \<in> set external_packages
      | Builtin \<Rightarrow> True
      | Unbound \<Rightarrow> False)"

definition undelegated :: "notebook \<Rightarrow> (string \<times> origin) list" where
  "undelegated nb = remdups (filter (\<lambda>c. \<not> delegated c) (call_trace nb))"

definition occurrences :: "notebook \<Rightarrow> string \<Rightarrow> nat" where
  "occurrences nb n = length (filter (\<lambda>t. t = Name n) (concat (all_statements nb)))"

section \<open>Names a document reads\<close>









section \<open>The generator, cell by cell\<close>




section \<open>A document with its blanks filled in\<close>














section \<open>Character classes, bit by bit\<close>

text \<open>
  The character classes are defined by listing their members. For evaluation the same
  classes are characterised on the eight bits of a character, so that classifying a
  character is one rewrite step instead of a walk through the list.
\<close>

lemma is_digit_Char [code]:
  "is_digit (Char b0 b1 b2 b3 b4 b5 b6 b7) =
     (\<not> b7 \<and> \<not> b6 \<and> b5 \<and> b4 \<and> (\<not> b3 \<or> (\<not> b2 \<and> \<not> b1)))"
  by (cases b0; cases b1; cases b2; cases b3; cases b4; cases b5; cases b6; cases b7;
      simp add: is_digit_def)

lemma is_letter_Char [code]:
  "is_letter (Char b0 b1 b2 b3 b4 b5 b6 b7) =
     (\<not> b7 \<and> b6 \<and>
       (if b4 then (\<not> b3 \<or> (\<not> b2 \<and> (\<not> b1 \<or> \<not> b0)) \<or> (\<not> b5 \<and> b2 \<and> b1 \<and> b0))
        else (b3 \<or> b2 \<or> b1 \<or> b0)))"
  by (cases b0; cases b1; cases b2; cases b3; cases b4; cases b5; cases b6; cases b7;
      simp add: is_letter_def)

lemma is_blank_Char [code]:
  "is_blank (Char b0 b1 b2 b3 b4 b5 b6 b7) =
     (\<not> b7 \<and> \<not> b6 \<and> \<not> b4 \<and> \<not> b2 \<and> \<not> b1
      \<and> ((b5 \<and> \<not> b3 \<and> \<not> b0) \<or> (\<not> b5 \<and> b3 \<and> b0)))"
  by (cases b0; cases b1; cases b2; cases b3; cases b4; cases b5; cases b6; cases b7;
      simp add: is_blank_def)


section \<open>The run stops at the first rejected cell\<close>

lemma first_index_bound: "first_index i bs = Some j \<Longrightarrow> i \<le> j"
proof (induction bs arbitrary: i)
  case Nil
  then show ?case by simp
next
  case (Cons b bs)
  show ?case
  proof (cases b)
    case True
    with Cons.prems show ?thesis by simp
  next
    case False
    with Cons.prems have "first_index (Suc i) bs = Some j" by simp
    from Cons.IH [OF this] show ?thesis by simp
  qed
qed

lemma run_statements_executed:
  "\<exists>xs. executed (snd (run_statements lib k ss)) = executed k @ xs \<and> prefix xs ss
        \<and> (fst (run_statements lib k ss) = None \<longrightarrow> xs = ss)"
proof (induction ss arbitrary: k)
  case Nil
  show ?case by simp
next
  case (Cons s ss)
  show ?case
  proof (cases "unbound_calls (names k) s \<noteq> [] \<or> \<not> lib s")
    case True
    then have "executed (snd (run_statements lib k (s # ss))) = executed k @ []"
      and "fst (run_statements lib k (s # ss)) \<noteq> None"
      by (simp_all split: if_splits)
    then show ?thesis by (intro exI [of _ "[]"]) simp
  next
    case False
    define k1 where "k1 = k\<lparr> names := bound_by s @ names k, executed := executed k @ [s] \<rparr>"
    from False have step: "run_statements lib k (s # ss) = run_statements lib k1 ss"
      by (simp add: k1_def)
    from Cons.IH [of k1] obtain xs where
      xs: "executed (snd (run_statements lib k1 ss)) = executed k1 @ xs \<and> prefix xs ss
          \<and> (fst (run_statements lib k1 ss) = None \<longrightarrow> xs = ss)" ..
    have "executed k1 = executed k @ [s]" by (simp add: k1_def)
    with xs show ?thesis
      unfolding step by (intro exI [of _ "s # xs"]) simp
  qed
qed

lemma run_cells_stops:
  "first_index i (map syntax_error cs) = Some j \<Longrightarrow>
     \<exists>i' e k'. run_cells lib k i cs = (Failed i' e, k')
       \<and> (i' < j \<or> (i' = j \<and> e = SyntaxError))
       \<and> prefix (executed k') (executed k @ concat (take (j - i) cs))"
proof (induction cs arbitrary: i k)
  case Nil
  then show ?case by simp
next
  case (Cons c cs)
  show ?case
  proof (cases "syntax_error c")
    case True
    with Cons.prems have "j = i" by simp
    moreover from True have "run_cells lib k i (c # cs) = (Failed i SyntaxError, k)"
      by (simp add: run_cell_def)
    ultimately show ?thesis by simp
  next
    case False
    with Cons.prems have rest: "first_index (Suc i) (map syntax_error cs) = Some j" by simp
    from first_index_bound [OF rest] have ij: "Suc i \<le> j" .
    then have "j - i = Suc (j - Suc i)" by arith
    then have tk: "take (j - i) (c # cs) = c # take (j - Suc i) cs" by simp
    from run_statements_executed [of lib k c] obtain xs where
      xs: "executed (snd (run_statements lib k c)) = executed k @ xs \<and> prefix xs c
          \<and> (fst (run_statements lib k c) = None \<longrightarrow> xs = c)" ..
    obtain r k1 where rk: "run_statements lib k c = (r, k1)" by (cases "run_statements lib k c")
    show ?thesis
    proof (cases r)
      case (Some e)
      with False rk have "run_cells lib k i (c # cs) = (Failed i e, k1)"
        by (simp add: run_cell_def)
      moreover have "i < j" using ij by simp
      moreover have "prefix (executed k1) (executed k @ concat (take (j - i) (c # cs)))"
      proof -
        from xs have "prefix xs c" by simp
        then have "prefix xs (c @ concat (take (j - Suc i) cs))" by (rule prefix_prefix)
        moreover from xs rk have "executed k1 = executed k @ xs" by simp
        ultimately show ?thesis by (simp add: tk)
      qed
      ultimately show ?thesis by simp
    next
      case None
      with False rk have step: "run_cells lib k i (c # cs) = run_cells lib k1 (Suc i) cs"
        by (simp add: run_cell_def)
      from None rk xs have k1: "executed k1 = executed k @ c" by simp
      from Cons.IH [OF rest, of k1] show ?thesis unfolding step by (simp add: k1 tk)
    qed
  qed
qed

lemma stops_by_blankI:
  assumes "first_rejected nb = Some j"
  shows "stops_by_blank lib nb"
proof -
  from assms have "first_index 0 (map syntax_error (lexed nb)) = Some j"
    by (simp add: first_rejected_def rejected_cells_def)
  from run_cells_stops [OF this, of lib fresh_kernel] obtain i' e k' where
    run: "run_cells lib fresh_kernel 0 (lexed nb) = (Failed i' e, k')
      \<and> (i' < j \<or> (i' = j \<and> e = SyntaxError))
      \<and> prefix (executed k') (executed fresh_kernel @ concat (take (j - 0) (lexed nb)))"
    by (elim exE)
  have "executed fresh_kernel = []" by (simp add: fresh_kernel_def)
  with run assms show ?thesis
    by (simp add: stops_by_blank_def run_all_def statements_before_def)
qed

section \<open>A kernel holds what its own document gave it\<close>






section \<open>A seeded generator forgets its starting state\<close>

lemma seeded_replay:
  "seeded s es \<Longrightarrow> (s \<longrightarrow> r1 = r2) \<Longrightarrow> replay reseed gen r1 es = replay reseed gen r2 es"
proof (induction s es arbitrary: r1 r2 rule: seeded.induct)
  case (1 s)
  show ?case by simp
next
  case (2 s k es)
  then show ?case by simp
next
  case (3 s es)
  then show ?case by simp
next
  case (4 s f es)
  then show ?case by (simp split: prod.splits)
qed

lemma seeded_forgets:
  "seeded False es \<Longrightarrow> replay reseed gen r1 es = replay reseed gen r2 es"
  using seeded_replay [of False es r1 r2 reseed gen] by simp


section \<open>A Python 3 kernel stops at a cell it rejects\<close>



section \<open>A name read before it is bound is not in the kernel\<close>




section \<open>The outcome of a run depends on the names only\<close>






lemma lexed_cahn_hilliard:
  "lexed cahn_hilliard =
     [[[Magic ''%matplotlib inline''], [Magic ''%load_ext autoreload''],
     [Magic ''%autoreload 2''],
     [Keyword ''import'', Name ''numpy'', Keyword ''as'', Name ''np''],
     [Keyword ''import'', Name ''matplotlib'', Op ''.'', Name ''pyplot'',
     Keyword ''as'', Name ''plt'']],
     [[Keyword ''import'', Name ''pymks''],
     [Keyword ''from'', Name ''pymks'', Op ''.'', Name ''datasets'',
     Keyword ''import'', Name ''make_cahn_hilliard''],
     [Name ''n'', Op ''='', Number ''41''],
     [Name ''n_samples'', Op ''='', Number ''400''],
     [Name ''dt'', Op ''='', Number ''1e-2''],
     [Name ''np'', Op ''.'', Name ''random'', Op ''.'', Name ''seed'',
     Op ''('', Number ''99'', Op '')''],
     [Op ''='', Name ''make_cahn_hilliard'', Op ''('', Name ''n_samples'',
     Op ''='', Name ''n_samples'', Op '','', Name ''size'', Op ''='',
     Op ''('', Name ''n'', Op '','', Name ''n'', Op '')'', Op '','',
     Name ''dt'', Op ''='', Name ''dt'', Op '')'']],
     [[Keyword ''from'', Name ''pymks'', Op ''.'', Name ''tools'',
     Keyword ''import'', Name ''draw_concentrations''],
     [Name ''draw_concentrations'', Op ''('', Op ''('', Op '','', Op '')'',
     Op '','', Name ''labels'', Op ''='', Op ''('', Str ''Input'', Op '','',
     Str ''Out'', Op '')'', Op '')'']],
     [[Keyword ''import'', Name ''sklearn''],
     [Keyword ''from'', Name ''sklearn'', Op ''.'', Name ''cross_validation'',
     Keyword ''import'', Name ''train_test_split''],
     [Name ''split_shape'', Op ''='', Op ''('', Name ''X'', Op ''.'',
     Name ''shape'', Op ''['', Number ''0'', Op '']'', Op '','', Op '')'',
     Op ''+'', Op ''('', Name ''np'', Op ''.'', Name ''product'', Op ''('',
     Name ''X'', Op ''.'', Name ''shape'', Op ''['', Number ''1'', Op '':'',
     Op '']'', Op '')'', Op '','', Op '')''],
     [Op ''='', Name ''train_test_split'', Op ''('', Name ''X'', Op ''.'',
     Name ''reshape'', Op ''('', Name ''split_shape'', Op '')'', Op '','',
     Name ''y'', Op ''.'', Name ''reshape'', Op ''('', Name ''split_shape'',
     Op '')'', Op '','', Name ''test_size'', Op ''='', Number ''0.5'',
     Op '','', Name ''random_state'', Op ''='', Number ''3'', Op '')'']],
     [[Keyword ''from'', Name ''pymks'', Keyword ''import'',
     Name ''MKSLocalizationModel''],
     [Keyword ''from'', Name ''pymks'', Op ''.'', Name ''bases'',
     Keyword ''import'', Name ''PrimitiveBasis'']],
     [[Keyword ''from'', Name ''sklearn'', Op ''.'', Name ''grid_search'',
     Keyword ''import'', Name ''GridSearchCV''],
     [Name ''parameters_to_tune'', Op ''='', Op ''{'', Str ''n_states'',
     Op '':'', Name ''np'', Op ''.'', Name ''arange'', Op ''('',
     Number ''2'', Op '','', Number ''11'', Op '')'', Op ''}''],
     [Name ''prim_basis'', Op ''='', Name ''PrimitiveBasis'', Op ''('',
     Number ''2'', Op '','', Op ''['', Op ''-'', Number ''1'', Op '','',
     Number ''1'', Op '']'', Op '')''],
     [Name ''model'', Op ''='', Name ''MKSLocalizationModel'', Op ''('',
     Name ''prim_basis'', Op '')''],
     [Name ''gs'', Op ''='', Name ''GridSearchCV'', Op ''('', Name ''model'',
     Op '','', Name ''parameters_to_tune'', Op '','', Name ''cv'', Op ''='',
     Number ''5'', Op '','', Name ''fit_params'', Op ''='', Op ''{'',
     Str ''size'', Op '':'', Op ''('', Name ''n'', Op '','', Name ''n'',
     Op '')'', Op ''}'', Op '')''],
     [Name ''gs'', Op ''.'', Name ''fit'', Op ''('', Op '','', Op '')'']],
     [[Keyword ''print'', Op ''('', Name ''gs'', Op ''.'',
     Name ''best_estimator_'', Op '')''],
     [Keyword ''print'', Op ''('', Name ''gs'', Op ''.'', Name ''score'',
     Op ''('', Op '','', Op '')'', Op '')'']],
     [[Keyword ''from'', Name ''pymks'', Op ''.'', Name ''tools'',
     Keyword ''import'', Name ''draw_gridscores''],
     [Name ''draw_gridscores'', Op ''('', Name ''gs'', Op ''.'',
     Name ''grid_scores_'', Op '','', Str ''n_states'', Op '','',
     Name ''score_label'', Op ''='', Str ''R-squared'', Op '','',
     Name ''param_label'', Op ''='', Str ''L - Number of states'',
     Op '')'']],
     [[Name ''model'', Op ''='', Name ''MKSLocalizationModel'', Op ''('',
     Name ''basis'', Op ''='', Name ''PrimitiveBasis'', Op ''('',
     Number ''6'', Op '','', Op ''['', Op ''-'', Number ''1'', Op '','',
     Number ''1'', Op '']'', Op '')'', Op '')''],
     [Name ''model'', Op ''.'', Name ''fit'', Op ''('', Op '','', Op '')'']],
     [[Keyword ''from'', Name ''pymks'', Op ''.'', Name ''tools'',
     Keyword ''import'', Name ''draw_coeff''],
     [Name ''draw_coeff'', Op ''('', Op '')'']],
     [[Keyword ''from'', Name ''pymks'', Op ''.'', Name ''datasets'', Op ''.'',
     Name ''cahn_hilliard_simulation'', Keyword ''import'',
     Name ''CahnHilliardSimulation''],
     [Name ''np'', Op ''.'', Name ''random'', Op ''.'', Name ''seed'',
     Op ''('', Number ''191'', Op '')''],
     [Name ''phi0'', Op ''='', Name ''np'', Op ''.'', Name ''random'',
     Op ''.'', Name ''normal'', Op ''('', Number ''0'', Op '','',
     Number ''1e-9'', Op '','', Op ''('', Number ''1'', Op '','', Name ''n'',
     Op '','', Name ''n'', Op '')'', Op '')''],
     [Name ''ch_sim'', Op ''='', Name ''CahnHilliardSimulation'', Op ''('',
     Name ''dt'', Op ''='', Name ''dt'', Op '')''],
     [Name ''phi_sim'', Op ''='', Name ''phi0'', Op ''.'', Name ''copy'',
     Op ''('', Op '')''],
     [Name ''phi_pred'', Op ''='', Name ''phi0'', Op ''.'', Name ''copy'',
     Op ''('', Op '')'']],
     [[Name ''time_steps'', Op ''='', Number ''10''],
     [Keyword ''for'', Name ''ii'', Keyword ''in'', Name ''range'', Op ''('',
     Name ''time_steps'', Op '')'', Op '':''],
     [Name ''ch_sim'', Op ''.'', Name ''run'', Op ''('', Name ''phi_sim'',
     Op '')''],
     [Name ''phi_sim'', Op ''='', Name ''ch_sim'', Op ''.'',
     Name ''response''],
     [Name ''phi_pred'', Op ''='', Name ''model'', Op ''.'', Name ''predict'',
     Op ''('', Name ''phi_pred'', Op '')'']],
     [[Keyword ''from'', Name ''pymks'', Op ''.'', Name ''tools'',
     Keyword ''import'', Name ''draw_concentrations_compare''],
     [Name ''draw_concentrations_compare'', Op ''('', Op ''('',
     Name ''phi_sim'', Op ''['', Number ''0'', Op '']'', Op '','',
     Name ''phi_pred'', Op ''['', Number ''0'', Op '']'', Op '')'', Op '','',
     Name ''labels'', Op ''='', Op ''('', Str ''Simulation'', Op '','',
     Str ''MKS'', Op '')'', Op '')'']],
     [[Name ''m'', Op ''='', Number ''3'', Op ''*'', Name ''n''],
     [Name ''phi0'', Op ''='', Name ''np'', Op ''.'', Name ''random'',
     Op ''.'', Name ''normal'', Op ''('', Number ''0'', Op '','',
     Number ''1e-9'', Op '','', Op ''('', Number ''1'', Op '','', Name ''m'',
     Op '','', Name ''m'', Op '')'', Op '')''],
     [Name ''phi_sim'', Op ''='', Name ''phi0'', Op ''.'', Name ''copy'',
     Op ''('', Op '')''],
     [Name ''phi_pred'', Op ''='', Name ''phi0'', Op ''.'', Name ''copy'',
     Op ''('', Op '')'']],
     [[Keyword ''for'', Name ''ii'', Keyword ''in'', Name ''range'', Op ''('',
     Number ''1000'', Op '')'', Op '':''],
     [Name ''ch_sim'', Op ''.'', Name ''run'', Op ''('', Name ''phi_sim'',
     Op '')''],
     [Name ''phi_sim'', Op ''='', Name ''ch_sim'', Op ''.'',
     Name ''response''],
     [Name ''phi_pred'', Op ''='', Name ''model'', Op ''.'', Name ''predict'',
     Op ''('', Name ''phi_pred'', Op '')'']],
     [[Keyword ''from'', Name ''pymks'', Op ''.'', Name ''tools'',
     Keyword ''import'', Name ''draw_concentrations_compare'']]]"
  by code_simp

lemma lexed_checker_board:
  "lexed checker_board =
     [[[Magic ''%matplotlib inline''], [Magic ''%load_ext autoreload''],
     [Magic ''%autoreload 2''],
     [Keyword ''import'', Name ''numpy'', Keyword ''as'', Name ''np''],
     [Keyword ''import'', Name ''matplotlib'', Op ''.'', Name ''pyplot'',
     Keyword ''as'', Name ''plt'']],
     [[Keyword ''from'', Name ''pymks'', Op ''.'', Name ''datasets'',
     Keyword ''import'', Name ''make_checkerboard_microstructure''],
     [Op ''='', Name ''make_checkerboard_microstructure'', Op ''('',
     Name ''square_size'', Op ''='', Op '','', Name ''n_squares'', Op ''='',
     Op '')'']],
     [[Keyword ''from'', Name ''pymks'', Op ''.'', Name ''tools'',
     Keyword ''import'', Name ''draw_microstructures''],
     [Name ''draw_microstructures'', Op ''('', Op '')''],
     [Keyword ''print'', Op ''.'', Name ''shape'']],
     [[Keyword ''from'', Name ''pymks'', Op ''.'', Name ''stats'',
     Keyword ''import'', Name ''autocorrelate''],
     [Keyword ''from'', Name ''pymks'', Keyword ''import'',
     Name ''PrimitiveBasis''],
     [Op ''='', Name ''PrimitiveBasis'', Op ''('', Name ''n_states'',
     Op ''='', Op '')''],
     [Op ''='', Op ''.'', Name ''discretize'', Op ''('', Op '')''],
     [Op ''='', Name ''autocorrelate'', Op ''('', Op '','',
     Name ''periodic_axes'', Op ''='', Op ''('', Number ''0'', Op '','',
     Number ''1'', Op '')'', Op '')'']],
     [[Keyword ''from'', Name ''pymks'', Op ''.'', Name ''tools'',
     Keyword ''import'', Name ''draw_autocorrelations''],
     [Name ''correlations'', Op ''='', Op ''['', Op ''('', Str ''black'',
     Op '','', Str ''black'', Op '')'', Op '','', Op ''('', Str ''white'',
     Op '','', Str ''white'', Op '')'', Op '']''],
     [Name ''draw_autocorrelations'', Op ''('', Op ''['', Number ''0'',
     Op '']'', Op '','', Name ''autocorrelations'', Op ''='',
     Name ''correlations'', Op '')'']],
     [[Name ''center'', Op ''='', Op ''('', Op ''.'', Name ''shape'', Op ''['',
     Number ''1'', Op '']'', Op ''+'', Number ''1'', Op '')'', Op ''/'',
     Number ''2''],
     [Keyword ''print'', Str ''Volume fraction of black phase'', Op '','',
     Op ''['', Number ''0'', Op '','', Name ''center'', Op '','',
     Name ''center'', Op '','', Number ''0'', Op '']''],
     [Keyword ''print'', Str ''Volume fraction of white phase'', Op '','',
     Op ''['', Number ''0'', Op '','', Name ''center'', Op '','',
     Name ''center'', Op '','', Number ''1'', Op '']'']],
     [[Keyword ''from'', Name ''pymks'', Op ''.'', Name ''stats'',
     Keyword ''import'', Name ''crosscorrelate''],
     [Op ''='', Name ''crosscorrelate'', Op ''('', Op '','',
     Name ''periodic_axes'', Op ''='', Op ''('', Number ''0'', Op '','',
     Number ''1'', Op '')'', Op '')'']],
     [[Keyword ''from'', Name ''pymks'', Op ''.'', Name ''tools'',
     Keyword ''import'', Name ''draw_crosscorrelations''],
     [Name ''correlations'', Op ''='', Op ''['', Op ''('', Str ''black'',
     Op '','', Str ''white'', Op '')'', Op '']''],
     [Name ''draw_crosscorrelations'', Op ''('', Op ''['', Number ''0'',
     Op '']'', Op '','', Name ''crosscorrelations'', Op ''='',
     Name ''correlations'', Op '')'']],
     [[Keyword ''print'', Str ''Center value'', Op '','', Op ''['',
     Number ''0'', Op '','', Name ''center'', Op '','', Name ''center'',
     Op '','', Number ''0'', Op '']'']]]"
  by code_simp

lemma lexed_elasticity_2D:
  "lexed elasticity_2D =
     [[[Magic ''%matplotlib inline''], [Magic ''%load_ext autoreload''],
     [Magic ''%autoreload 2''],
     [Keyword ''import'', Name ''numpy'', Keyword ''as'', Name ''np''],
     [Keyword ''import'', Name ''matplotlib'', Op ''.'', Name ''pyplot'',
     Keyword ''as'', Name ''plt'']],
     [[Name ''n'', Op ''='', Number ''21''],
     [Keyword ''from'', Name ''pymks'', Op ''.'', Name ''tools'',
     Keyword ''import'', Name ''draw_microstructures''],
     [Keyword ''from'', Name ''pymks'', Op ''.'', Name ''datasets'',
     Keyword ''import'', Name ''make_delta_microstructures''],
     [Name ''X_delta'', Op ''='', Name ''make_delta_microstructures'',
     Op ''('', Name ''n_phases'', Op ''='', Number ''2'', Op '','',
     Name ''size'', Op ''='', Op ''('', Name ''n'', Op '','', Name ''n'',
     Op '')'', Op '')''],
     [Name ''draw_microstructures'', Op ''('', Name ''X_delta'', Op '')'']],
     [[Keyword ''from'', Name ''pymks'', Op ''.'', Name ''datasets'',
     Keyword ''import'', Name ''make_elastic_FE_strain_delta''],
     [Name ''elastic_modulus'', Op ''='', Op ''('', Number ''100'', Op '','',
     Number ''120'', Op '')''],
     [Name ''poissons_ratio'', Op ''='', Op ''('', Number ''0.3'', Op '','',
     Number ''0.3'', Op '')''],
     [Name ''macro_strain'', Op ''='', Number ''0.02''],
     [Name ''size'', Op ''='', Op ''('', Name ''n'', Op '','', Name ''n'',
     Op '')''],
     [Op ''='', Name ''make_elastic_FE_strain_delta'', Op ''('',
     Name ''elastic_modulus'', Op ''='', Name ''elastic_modulus'', Op '','',
     Name ''poissons_ratio'', Op ''='', Name ''poissons_ratio'', Op '','',
     Name ''size'', Op ''='', Name ''size'', Op '','', Name ''macro_strain'',
     Op ''='', Name ''macro_strain'', Op '')'']],
     [[Keyword ''from'', Name ''pymks'', Op ''.'', Name ''tools'',
     Keyword ''import'', Name ''draw_microstructure_strain''],
     [Name ''draw_microstructure_strain'', Op ''('', Op '','', Op '')'']],
     [[Keyword ''from'', Name ''pymks'', Keyword ''import'',
     Name ''MKSLocalizationModel''],
     [Keyword ''from'', Name ''pymks'', Keyword ''import'',
     Name ''PrimitiveBasis''],
     [Op ''='', Name ''PrimitiveBasis'', Op ''('', Name ''n_states'',
     Op ''='', Number ''2'', Op '','', Name ''domain'', Op ''='', Op ''['',
     Number ''0'', Op '','', Number ''1'', Op '']'', Op '')''],
     [Name ''model'', Op ''='', Name ''MKSLocalizationModel'', Op ''('',
     Name ''basis'', Op ''='', Op '')'']],
     [[Name ''model'', Op ''.'', Name ''fit'', Op ''('', Op '')'']],
     [[Keyword ''from'', Name ''pymks'', Op ''.'', Name ''tools'',
     Keyword ''import'', Name ''draw_coeff''],
     [Name ''draw_coeff'', Op ''('', Op '')'']],
     [[Keyword ''from'', Name ''pymks'', Op ''.'', Name ''datasets'',
     Keyword ''import'', Name ''make_elastic_FE_strain_random''],
     [Name ''np'', Op ''.'', Name ''random'', Op ''.'', Name ''seed'',
     Op ''('', Number ''99'', Op '')''],
     [Op ''='', Name ''make_elastic_FE_strain_random'', Op ''('',
     Name ''n_samples'', Op ''='', Number ''1'', Op '','',
     Name ''elastic_modulus'', Op ''='', Name ''elastic_modulus'', Op '','',
     Name ''poissons_ratio'', Op ''='', Name ''poissons_ratio'', Op '','',
     Name ''size'', Op ''='', Name ''size'', Op '','', Name ''macro_strain'',
     Op ''='', Name ''macro_strain'', Op '')''],
     [Name ''draw_microstructure_strain'', Op ''('', Op '')'']],
     [[Name ''strain_predict'', Op ''='', Name ''model'', Op ''.'',
     Name ''predict'', Op ''('', Op '')'']],
     [[Keyword ''from'', Name ''pymks'', Op ''.'', Name ''tools'',
     Keyword ''import'', Name ''draw_strains_compare''],
     [Name ''draw_strains_compare'', Op ''('', Op '','', Op '')'']],
     [[Keyword ''from'', Name ''pymks'', Op ''.'', Name ''tools'',
     Keyword ''import'', Name ''draw_differences''],
     [Name ''draw_differences'', Op ''('', Op ''['', Op '']'', Op '','',
     Op ''['', Str ''FE - MKS'', Op '']'', Op '')'']],
     [[Name ''m'', Op ''='', Number ''3'', Op ''*'', Name ''n''],
     [Name ''size'', Op ''='', Op ''('', Name ''m'', Op '','', Name ''m'',
     Op '')''],
     [Keyword ''print'', Name ''size''],
     [Op ''='', Name ''make_elastic_FE_strain_random'', Op ''('',
     Name ''n_samples'', Op ''='', Number ''1'', Op '','',
     Name ''elastic_modulus'', Op ''='', Name ''elastic_modulus'', Op '','',
     Name ''poissons_ratio'', Op ''='', Name ''poissons_ratio'', Op '','',
     Name ''size'', Op ''='', Name ''size'', Op '','', Name ''macro_strain'',
     Op ''='', Name ''macro_strain'', Op '')''],
     [Name ''draw_microstructure_strain'', Op ''('', Op '')'']],
     [[Name ''model'', Op ''.'', Name ''resize_coeff'', Op ''('', Op '')'']],
     [[Name ''draw_coeff'', Op ''('', Op '')'']],
     [[Name ''strain_predict'', Op ''='', Name ''model'', Op ''.'',
     Name ''predict'', Op ''('', Name ''X'', Op '')''],
     [Name ''draw_strains_compare'', Op ''('', Name ''strain'', Op ''['',
     Number ''0'', Op '']'', Op '','', Name ''strain_predict'', Op ''['',
     Number ''0'', Op '']'', Op '')'']],
     [],
     [[Name ''draw_differences'', Op ''('', Op ''['', Op '']'', Op '','',
     Op ''['', Str ''FE - MKS, Big'', Op '']'', Op '')'']]]"
  by code_simp

lemma lexed_elasticity_2D_second:
  "lexed elasticity_2D_second =
     [[[Magic ''%matplotlib inline''], [Magic ''%load_ext autoreload''],
     [Magic ''%autoreload 2''],
     [Keyword ''import'', Name ''numpy'', Keyword ''as'', Name ''np''],
     [Keyword ''import'', Name ''matplotlib'', Op ''.'', Name ''pyplot'',
     Keyword ''as'', Name ''plt'']],
     [[Keyword ''from'', Name ''pymks'', Op ''.'', Name ''datasets'',
     Keyword ''import'', Name ''make_delta_microstructures''],
     [Name ''n'', Op ''='', Number ''21''],
     [Name ''n_phases'', Op ''='', Number ''3'']],
     [[Keyword ''from'', Name ''pymks'', Op ''.'', Name ''tools'',
     Keyword ''import'', Name ''draw_microstructures'']],
     [[Keyword ''from'', Name ''pymks'', Op ''.'', Name ''datasets'',
     Keyword ''import'', Name ''make_elastic_FE_strain_delta''],
     [Name ''elastic_modulus'', Op ''='', Op ''('', Number ''80'', Op '','',
     Number ''100'', Op '','', Number ''120'', Op '')''],
     [Name ''poissons_ratio'', Op ''='', Op ''('', Number ''0.3'', Op '','',
     Number ''0.3'', Op '','', Number ''0.3'', Op '')''],
     [Name ''macro_strain'', Op ''='', Number ''0.02''],
     [Name ''size'', Op ''='', Op ''('', Name ''n'', Op '','', Name ''n'',
     Op '')''],
     [Op ''='', Name ''make_elastic_FE_strain_delta'', Op ''('',
     Name ''elastic_modulus'', Op ''='', Name ''elastic_modulus'', Op '','',
     Name ''poissons_ratio'', Op ''='', Name ''poissons_ratio'', Op '','',
     Name ''size'', Op ''='', Name ''size'', Op '','', Name ''macro_strain'',
     Op ''='', Name ''macro_strain'', Op '')'']],
     [[Keyword ''from'', Name ''pymks'', Op ''.'', Name ''tools'',
     Keyword ''import'', Name ''draw_microstructure_strain'']],
     [[Keyword ''from'', Name ''pymks'', Keyword ''import'',
     Name ''MKSLocalizationModel''],
     [Keyword ''from'', Name ''pymks'', Keyword ''import'',
     Name ''PrimitiveBasis'']],
     [],
     [[Keyword ''from'', Name ''pymks'', Op ''.'', Name ''tools'',
     Keyword ''import'', Name ''draw_coeff'']],
     [[Keyword ''from'', Name ''pymks'', Op ''.'', Name ''datasets'',
     Keyword ''import'', Name ''make_elastic_FE_strain_random''],
     [Name ''np'', Op ''.'', Name ''random'', Op ''.'', Name ''seed'',
     Op ''('', Number ''101'', Op '')'']],
     [], [],
     [[Keyword ''from'', Name ''pymks'', Op ''.'', Name ''tools'',
     Keyword ''import'', Name ''draw_strains_compare'']],
     [[Keyword ''from'', Name ''pymks'', Op ''.'', Name ''tools'',
     Keyword ''import'', Name ''draw_differences'']],
     [[Name ''m'', Op ''='', Number ''3'', Op ''*'', Name ''n''],
     [Name ''size'', Op ''='', Op ''('', Name ''m'', Op '','', Name ''m'',
     Op '')''],
     [Keyword ''print'', Name ''size''],
     [Op ''='', Name ''make_elastic_FE_strain_random'', Op ''('',
     Name ''n_samples'', Op ''='', Number ''1'', Op '','',
     Name ''elastic_modulus'', Op ''='', Name ''elastic_modulus'', Op '','',
     Name ''poissons_ratio'', Op ''='', Name ''poissons_ratio'', Op '','',
     Name ''size'', Op ''='', Name ''size'', Op '','', Name ''macro_strain'',
     Op ''='', Name ''macro_strain'', Op '')'']],
     [], [], [], [], []]"
  by code_simp

lemma lexed_python_intro_checkpoint:
  "lexed python_intro_checkpoint =
     [[], [[Name ''log10'', Op ''('', Number ''10'', Op '')'']],
     [[Keyword ''import'', Name ''math''],
     [Name ''math'', Op ''.'', Name ''log10'', Op ''('', Number ''10'',
     Op '')'']],
     [[Magic ''? math.log10'']], [[Name ''my_name'', Op ''='']],
     [[Name ''intro'', Op ''='', Str ''Hello, my name is ''],
     [Keyword ''print'', Op ''('', Name ''intro'', Op ''+'', Name ''my_name'',
     Op ''+'', Str ''.'', Op '')'']],
     [[Name ''first_initial'', Op ''='', Str ''My first initial is ''],
     [Keyword ''print'', Op ''('', Name ''first_initial'', Op ''+'',
     Name ''my_name'', Op ''['', Number ''0'', Op '']'', Op ''+'', Str ''.'',
     Op '')'']],
     [[Name ''initials'', Op ''='', Str ''My initials are ''],
     [Keyword ''print'', Op ''('', Name ''initials'', Op ''+'',
     Name ''my_name'', Op ''['', Number ''0'', Op '']'', Op ''+'',
     Name ''my_name'', Op ''['', Op '']'', Op ''+'', Str ''.'', Op '')'']],
     [[Keyword ''import'', Name ''numpy'', Keyword ''as'', Name ''np''],
     [Name ''B'', Op ''='', Name ''np'', Op ''.'', Name ''ones'', Op ''('',
     Op ''('', Number ''3'', Op '','', Number ''3'', Op '')'', Op '')''],
     [Keyword ''print'', Op ''('', Name ''B'', Op '')'']],
     [], [[Magic ''? np.dot'']],
     [[Name ''N'', Op ''=''],
     [Name ''A'', Op ''='', Name ''np'', Op ''.'', Name ''eye'', Op ''('',
     Name ''N'', Op '')'', Op ''*'', Number ''2''],
     [Name ''x'', Op ''='', Name ''np'', Op ''.'', Name ''arange'', Op ''('',
     Name ''N'', Op '')''],
     [Keyword ''print'', Op ''('', Str ''A ='', Op '')''],
     [Keyword ''print'', Op ''('', Name ''A'', Op '')''],
     [Keyword ''print'', Op ''('', Str ''x ='', Op '')''],
     [Keyword ''print'', Op ''('', Name ''x'', Op '')''],
     [Keyword ''print'', Op ''('', Str ''y ='', Op '')''],
     [Keyword ''print'', Op ''('', Name ''y'', Op '')'']],
     [],
     [[Magic ''%matplotlib inline''],
     [Keyword ''import'', Name ''matplotlib'', Op ''.'', Name ''pyplot'',
     Keyword ''as'', Name ''plt''],
     [Keyword ''from'', Name ''sklearn'', Keyword ''import'',
     Name ''datasets'', Op '','', Name ''linear_model''],
     [Name ''diabetes'', Op ''='', Name ''datasets'', Op ''.'',
     Name ''load_diabetes'', Op ''('', Op '')''],
     [Name ''diabetes_X'', Op ''='', Name ''diabetes'', Op ''.'',
     Name ''data'', Op ''['', Op '':'', Op '','', Name ''np'', Op ''.'',
     Name ''newaxis'', Op '']''],
     [Name ''diabetes_X_temp'', Op ''='', Name ''diabetes_X'', Op ''['',
     Op '':'', Op '','', Op '':'', Op '','', Number ''2'', Op '']''],
     [Name ''diabetes_X_train'', Op ''='', Name ''diabetes_X_temp'', Op ''['',
     Op '':'', Op ''-'', Number ''20'', Op '']''],
     [Name ''diabetes_X_test'', Op ''='', Name ''diabetes_X_temp'', Op ''['',
     Op ''-'', Number ''20'', Op '':'', Op '']''],
     [Name ''diabetes_y_train'', Op ''='', Name ''diabetes'', Op ''.'',
     Name ''target'', Op ''['', Op '':'', Op ''-'', Number ''20'', Op '']''],
     [Name ''diabetes_y_test'', Op ''='', Name ''diabetes'', Op ''.'',
     Name ''target'', Op ''['', Op ''-'', Number ''20'', Op '':'', Op '']''],
     [Name ''regr'', Op ''='', Name ''linear_model'', Op ''.'',
     Name ''LinearRegression'', Op ''('', Op '')''],
     [Keyword ''print'', Op ''('',
     Str [CHR ''C'', CHR ''o'', CHR ''e'', CHR ''f'', CHR ''f'', CHR ''i'',
     CHR ''c'', CHR ''i'', CHR ''e'', CHR ''n'', CHR ''t'', CHR ''s'',
     CHR '':'', CHR '' '', CHR 0x5C, CHR ''n''],
     Op '','', Name ''regr'', Op ''.'', Name ''coef_'', Op '')''],
     [Keyword ''print'', Op ''('', Str ''Residual sum of squares: %.2f'',
     Op ''%'', Name ''np'', Op ''.'', Name ''mean'', Op ''('', Op ''('',
     Name ''y'', Op ''-'', Name ''diabetes_y_test'', Op '')'', Op ''**'',
     Number ''2'', Op '')'', Op '')''],
     [Keyword ''print'', Op ''('', Str ''Variance score: %.2f'', Op ''%'',
     Name ''regr'', Op ''.'', Name ''score'', Op ''('',
     Name ''diabetes_X_test'', Op '','', Name ''diabetes_y_test'', Op '')'',
     Op '')''],
     [Name ''plt'', Op ''.'', Name ''scatter'', Op ''('',
     Name ''diabetes_X_test'', Op '','', Name ''diabetes_y_test'', Op '','',
     Name ''color'', Op ''='', Str ''black'', Op '')''],
     [Name ''plt'', Op ''.'', Name ''plot'', Op ''('',
     Name ''diabetes_X_test'', Op '','', Name ''y'', Op '','',
     Name ''color'', Op ''='', Str ''blue'', Op '','', Name ''linewidth'',
     Op ''='', Number ''3'', Op '')''],
     [Name ''plt'', Op ''.'', Name ''xticks'', Op ''('', Op ''('', Op '')'',
     Op '')''],
     [Name ''plt'', Op ''.'', Name ''yticks'', Op ''('', Op ''('', Op '')'',
     Op '')''],
     [Name ''plt'', Op ''.'', Name ''show'', Op ''('', Op '')'']],
     []]"
  by code_simp

lemma lexed_part_000:
  "lexed part_000 =
     [[[Magic ''%matplotlib inline''], [Magic ''%load_ext autoreload''],
     [Magic ''%autoreload 2''],
     [Keyword ''import'', Name ''numpy'', Keyword ''as'', Name ''np''],
     [Keyword ''import'', Name ''matplotlib'', Op ''.'', Name ''pyplot'',
     Keyword ''as'', Name ''plt'']],
     [[Keyword ''from'', Name ''pymks'', Op ''.'', Name ''datasets'',
     Keyword ''import'', Name ''make_elastic_stress_random''],
     [Name ''sample_size'', Op ''='', Number ''200''],
     [Name ''grain_size'', Op ''='', Op ''['', Op ''('', Number ''15'',
     Op '','', Number ''2'', Op '')'', Op '','', Op ''('', Number ''2'',
     Op '','', Number ''15'', Op '')'', Op '','', Op ''('', Number ''7'',
     Op '','', Number ''7'', Op '')'', Op '','', Op ''('', Number ''8'',
     Op '','', Number ''3'', Op '')'', Op '','', Op ''('', Number ''3'',
     Op '','', Number ''9'', Op '')'', Op '','', Op ''('', Number ''2'',
     Op '','', Number ''2'', Op '')'', Op '']''],
     [Name ''n_samples'', Op ''='', Op ''['', Name ''sample_size'', Op '']'',
     Op ''*'', Number ''6''],
     [Name ''elastic_modulus'', Op ''='', Op ''('', Number ''410'', Op '','',
     Number ''200'', Op '')''],
     [Name ''poissons_ratio'', Op ''='', Op ''('', Number ''0.28'', Op '','',
     Number ''0.3'', Op '')''],
     [Name ''macro_strain'', Op ''='', Number ''0.001''],
     [Name ''size'', Op ''='', Op ''('', Number ''21'', Op '','',
     Number ''21'', Op '')''],
     [Name ''X'', Op '','', Name ''y'', Op ''='']],
     [[Keyword ''from'', Name ''pymks'', Op ''.'', Name ''tools'',
     Keyword ''import'', Name ''draw_microstructures''],
     [Name ''X_examples'', Op ''='', Name ''X'', Op ''['', Op '':'', Op '':'',
     Name ''sample_size'', Op '']'']],
     [],
     [[Keyword ''from'', Name ''pymks'', Keyword ''import'',
     Name ''MKSHomogenizationModel''],
     [Keyword ''from'', Name ''pymks'', Keyword ''import'',
     Name ''PrimitiveBasis''],
     [Name ''prim_basis'', Op ''=''], [Name ''model'', Op ''='']],
     [[Name ''model'', Op ''.'', Name ''n_components'', Op ''='',
     Number ''40''],
     [Name ''model'', Op ''.'', Name ''fit'']],
     [[Keyword ''from'', Name ''pymks'', Op ''.'', Name ''tools'',
     Keyword ''import'', Name ''draw_component_variance'']],
     [[Keyword ''from'', Name ''sklearn'', Op ''.'', Name ''cross_validation'',
     Keyword ''import'', Name ''train_test_split''],
     [Name ''flat_shape'', Op ''='', Op ''('', Name ''X'', Op ''.'',
     Name ''shape'', Op ''['', Number ''0'', Op '']'', Op '','', Op '')'',
     Op ''+'', Op ''('', Name ''np'', Op ''.'', Name ''prod'', Op ''('',
     Name ''X'', Op ''.'', Name ''shape'', Op ''['', Number ''1'', Op '':'',
     Op '']'', Op '')'', Op '','', Op '')'']],
     [[Keyword ''from'', Name ''sklearn'', Op ''.'', Name ''grid_search'',
     Keyword ''import'', Name ''GridSearchCV''],
     [Name ''params_to_tune'', Op ''='', Op ''{'', Str ''degree'', Op '':'',
     Name ''np'', Op ''.'', Name ''arange'', Op ''('', Number ''1'',
     Op '','', Number ''4'', Op '')'', Op '','', Str ''n_components'',
     Op '':'', Name ''np'', Op ''.'', Name ''arange'', Op ''('',
     Number ''1'', Op '','', Number ''8'', Op '')'', Op ''}''],
     [Name ''fit_params'', Op ''='', Op ''{'', Str ''size'', Op '':'',
     Name ''X'', Op ''['', Number ''0'', Op '']'', Op ''.'', Name ''shape'',
     Op '','', Str ''periodic_axes'', Op '':'', Op ''['', Number ''0'',
     Op '','', Number ''1'', Op '']'', Op ''}''],
     [Name ''gs'', Op ''='']],
     [[Keyword ''from'', Name ''pymks'', Op ''.'', Name ''tools'',
     Keyword ''import'', Name ''draw_gridscores_matrix''],
     [Name ''draw_gridscores_matrix'']],
     [[Keyword ''print'', Op ''('', Str ''Order of Polynomial'', Op '')'',
     Op '','', Op ''('', Name ''gs'', Op ''.'', Name ''best_estimator_'',
     Op ''.'', Name ''degree'', Op '')''],
     [Keyword ''print'', Op ''('', Str ''Number of Components'', Op '')'',
     Op '','', Op ''('', Name ''gs'', Op ''.'', Name ''best_estimator_'',
     Op ''.'', Name ''n_components'', Op '')''],
     [Keyword ''print'', Op ''('', Str ''R-squared Value'', Op '')'',
     Op '','', Op ''('', Name ''gs'', Op ''.'', Name ''score'', Op ''('',
     Name ''X_test'', Op '','', Name ''y_test'', Op '')'', Op '')'']],
     [[Keyword ''from'', Name ''pymks'', Op ''.'', Name ''tools'',
     Keyword ''import'', Name ''draw_gridscores''],
     [Name ''gs_deg_1'', Op ''='', Op ''['', Name ''x'', Keyword ''for'',
     Name ''x'', Keyword ''in'', Name ''gs'', Op ''.'',
     Name ''grid_scores_'', Keyword ''if'', Name ''x'', Op ''.'',
     Name ''parameters'', Op ''['', Str ''degree'', Op '']'', Op ''=='',
     Number ''1'', Op '']'', Op ''['', Number ''2'', Op '':'', Op ''-'',
     Number ''1'', Op '']''],
     [Name ''gs_deg_2'', Op ''='', Op ''['', Name ''x'', Keyword ''for'',
     Name ''x'', Keyword ''in'', Name ''gs'', Op ''.'',
     Name ''grid_scores_'', Keyword ''if'', Name ''x'', Op ''.'',
     Name ''parameters'', Op ''['', Str ''degree'', Op '']'', Op ''=='',
     Number ''2'', Op '']'', Op ''['', Number ''2'', Op '':'', Op ''-'',
     Number ''1'', Op '']''],
     [Name ''gs_deg_3'', Op ''='', Op ''['', Name ''x'', Keyword ''for'',
     Name ''x'', Keyword ''in'', Name ''gs'', Op ''.'',
     Name ''grid_scores_'', Keyword ''if'', Name ''x'', Op ''.'',
     Name ''parameters'', Op ''['', Str ''degree'', Op '']'', Op ''=='',
     Number ''3'', Op '']'', Op ''['', Number ''2'', Op '':'', Op ''-'',
     Number ''1'', Op '']''],
     [Name ''draw_gridscores'', Op ''('', Op ''['', Name ''gs_deg_1'',
     Op '','', Name ''gs_deg_2'', Op '','', Name ''gs_deg_3'', Op '']'',
     Op '','', Str ''n_components'', Op '','', Name ''data_labels'',
     Op ''='', Op ''['', Str ''1st Order'', Op '','', Str ''2nd Order'',
     Op '','', Str ''3rd Order'', Op '']'', Op '','', Name ''colors'',
     Op ''='', Op ''['', Str ''#f46d43'', Op '','', Str ''#1a9641'',
     Op '','', Str ''#762a83'', Op '']'', Op '','', Name ''param_label'',
     Op ''='', Str ''Number of Components'', Op '','', Name ''score_label'',
     Op ''='', Str ''R-Squared'', Op '')'']],
     [[Name ''model'', Op ''='', Name ''gs'', Op ''.'',
     Name ''best_estimator_''],
     [Name ''model'', Op ''.'', Name ''fit'', Op ''('', Name ''X'', Op '','',
     Name ''y'', Op '','', Name ''periodic_axes'', Op ''='', Op ''['',
     Number ''0'', Op '','', Number ''1'', Op '']'', Op '')'']],
     [[Name ''test_sample_size'', Op ''='', Number ''20''],
     [Name ''n_samples'', Op ''='', Op ''['', Name ''test_sample_size'',
     Op '']'', Op ''*'', Number ''6''],
     [Name ''X_new'', Op '','', Name ''y_new'', Op ''='']],
     [[Name ''y_predict'', Op ''='']],
     [[Keyword ''from'', Name ''pymks'', Op ''.'', Name ''tools'',
     Keyword ''import'', Name ''draw_components''],
     [Name ''draw_components'', Op ''('', Op ''['', Name ''model'', Op ''.'',
     Name ''reduced_fit_data'', Op ''['', Op '':'', Op '','', Op '':'',
     Number ''2'', Op '']'', Op '','', Name ''model'', Op ''.'',
     Name ''reduced_predict_data'', Op ''['', Op '':'', Op '','', Op '':'',
     Number ''2'', Op '']'', Op '']'', Op '','', Op ''['',
     Str ''Training Data'', Op '','', Str ''Testing Data'', Op '']'',
     Op '')'']],
     [[Keyword ''from'', Name ''sklearn'', Op ''.'', Name ''metrics'',
     Keyword ''import'', Name ''r2_score''],
     [Keyword ''print'', Op ''('', Str ''R-squared'', Op '')'', Op '','',
     Op ''('', Name ''model'', Op ''.'', Name ''score'', Op ''('',
     Name ''X_new'', Op '','', Name ''y_new'', Op '','',
     Name ''periodic_axes'', Op ''='', Op ''['', Number ''0'', Op '','',
     Number ''1'', Op '']'', Op '')'', Op '')'']],
     [[Keyword ''from'', Name ''pymks'', Op ''.'', Name ''tools'',
     Keyword ''import'', Name ''draw_goodness_of_fit''],
     [Name ''fit_data'', Op ''=''], [Name ''pred_data'', Op ''=''],
     [Name ''draw_goodness_of_fit'', Op ''('', Name ''fit_data'', Op '','',
     Name ''pred_data'', Op '','', Op ''['', Str ''Training Data'', Op '','',
     Str ''Testing Data'', Op '']'', Op '')'']]]"
  by code_simp

section \<open>The documents, evaluated\<close>

lemmas lexed_corpus = lexed_cahn_hilliard lexed_checker_board lexed_elasticity_2D
  lexed_elasticity_2D_second lexed_python_intro_checkpoint lexed_part_000

lemma first_rejected_corpus:
  "first_rejected cahn_hilliard = Some 1" "first_rejected checker_board = Some 1"
  "first_rejected elasticity_2D = Some 2" "first_rejected elasticity_2D_second = Some 3"
  "first_rejected python_intro_checkpoint = Some 4" "first_rejected part_000 = Some 1"
  by (simp_all only: first_rejected_def rejected_cells_def lexed_corpus) code_simp+

lemma random_events_corpus:
  "random_events cahn_hilliard =
     [Seed (Some 99), Draw ''make_cahn_hilliard'', Seed (Some 191),
      Draw ''np.random.normal'', Draw ''np.random.normal'']"
  "random_events elasticity_2D =
     [Seed (Some 99), Draw ''make_elastic_FE_strain_random'',
      Draw ''make_elastic_FE_strain_random'']"
  "random_events elasticity_2D_second =
     [Seed (Some 101), Draw ''make_elastic_FE_strain_random'']"
  by (simp_all only: random_events_def all_statements_def lexed_corpus) code_simp+




lemma call_trace_corpus:
  "call_trace cahn_hilliard =
     [(''seed'', Library ''numpy''), (''make_cahn_hilliard'', Library ''pymks.datasets''),
      (''draw_concentrations'', Library ''pymks.tools''), (''product'', Library ''numpy''),
      (''train_test_split'', Library ''sklearn.cross_validation''), (''reshape'', Unbound),
      (''reshape'', Unbound), (''arange'', Library ''numpy''),
      (''PrimitiveBasis'', Library ''pymks.bases''),
      (''MKSLocalizationModel'', Library ''pymks''),
      (''GridSearchCV'', Library ''sklearn.grid_search''),
      (''fit'', Library ''sklearn.grid_search''),
      (''score'', Library ''sklearn.grid_search''),
      (''draw_gridscores'', Library ''pymks.tools''),
      (''MKSLocalizationModel'', Library ''pymks''),
      (''PrimitiveBasis'', Library ''pymks.bases''), (''fit'', Library ''pymks''),
      (''draw_coeff'', Library ''pymks.tools''), (''seed'', Library ''numpy''),
      (''normal'', Library ''numpy''),
      (''CahnHilliardSimulation'', Library ''pymks.datasets.cahn_hilliard_simulation''),
      (''copy'', Library ''numpy''), (''copy'', Library ''numpy''), (''range'', Builtin),
      (''run'', Library ''pymks.datasets.cahn_hilliard_simulation''),
      (''predict'', Library ''pymks''),
      (''draw_concentrations_compare'', Library ''pymks.tools''),
      (''normal'', Library ''numpy''), (''copy'', Library ''numpy''),
      (''copy'', Library ''numpy''), (''range'', Builtin),
      (''run'', Library ''pymks.datasets.cahn_hilliard_simulation''),
      (''predict'', Library ''pymks'')]"
  "call_trace checker_board =
     [(''make_checkerboard_microstructure'', Library ''pymks.datasets''),
      (''draw_microstructures'', Library ''pymks.tools''),
      (''PrimitiveBasis'', Library ''pymks''), (''discretize'', Unbound),
      (''autocorrelate'', Library ''pymks.stats''),
      (''draw_autocorrelations'', Library ''pymks.tools''),
      (''crosscorrelate'', Library ''pymks.stats''),
      (''draw_crosscorrelations'', Library ''pymks.tools'')]"
  "call_trace elasticity_2D =
     [(''make_delta_microstructures'', Library ''pymks.datasets''),
      (''draw_microstructures'', Library ''pymks.tools''),
      (''make_elastic_FE_strain_delta'', Library ''pymks.datasets''),
      (''draw_microstructure_strain'', Library ''pymks.tools''),
      (''PrimitiveBasis'', Library ''pymks''),
      (''MKSLocalizationModel'', Library ''pymks''), (''fit'', Library ''pymks''),
      (''draw_coeff'', Library ''pymks.tools''), (''seed'', Library ''numpy''),
      (''make_elastic_FE_strain_random'', Library ''pymks.datasets''),
      (''draw_microstructure_strain'', Library ''pymks.tools''),
      (''predict'', Library ''pymks''),
      (''draw_strains_compare'', Library ''pymks.tools''),
      (''draw_differences'', Library ''pymks.tools''),
      (''make_elastic_FE_strain_random'', Library ''pymks.datasets''),
      (''draw_microstructure_strain'', Library ''pymks.tools''),
      (''resize_coeff'', Library ''pymks''), (''draw_coeff'', Library ''pymks.tools''),
      (''predict'', Library ''pymks''),
      (''draw_strains_compare'', Library ''pymks.tools''),
      (''draw_differences'', Library ''pymks.tools'')]"
  "call_trace elasticity_2D_second =
     [(''make_elastic_FE_strain_delta'', Library ''pymks.datasets''),
      (''seed'', Library ''numpy''),
      (''make_elastic_FE_strain_random'', Library ''pymks.datasets'')]"
  "call_trace python_intro_checkpoint =
     [(''log10'', Unbound), (''log10'', Library ''math''), (''ones'', Library ''numpy''),
      (''eye'', Library ''numpy''), (''arange'', Library ''numpy''),
      (''load_diabetes'', Library ''sklearn''),
      (''LinearRegression'', Library ''sklearn''), (''mean'', Library ''numpy''),
      (''score'', Library ''sklearn''), (''scatter'', Library ''matplotlib.pyplot''),
      (''plot'', Library ''matplotlib.pyplot''),
      (''xticks'', Library ''matplotlib.pyplot''),
      (''yticks'', Library ''matplotlib.pyplot''),
      (''show'', Library ''matplotlib.pyplot'')]"
  "call_trace part_000 =
     [(''prod'', Library ''numpy''), (''arange'', Library ''numpy''),
      (''arange'', Library ''numpy''), (''score'', Unbound),
      (''draw_gridscores'', Library ''pymks.tools''), (''fit'', Unbound),
      (''draw_components'', Library ''pymks.tools''), (''score'', Unbound),
      (''draw_goodness_of_fit'', Library ''pymks.tools'')]"
  by (simp_all only: call_trace_def all_statements_def lexed_corpus) code_simp+




section \<open>The claims\<close>

text \<open>
  C1, as stated, says that every computational operation of a code cell is a call of a
  symbol imported from an external module. The second code cell of the Python
  introduction is \<^verbatim>\<open>log10(10)\<close>: a call of a name that is no builtin and that nothing
  before it in the document has imported or bound (the document imports \<^verbatim>\<open>math\<close> in
  the next cell and then calls \<^verbatim>\<open>math.log10\<close>). And in the notebook of unknown name
  the model that \<^verbatim>\<open>fit\<close> is called on is bound by blank assignments only
  (\<^verbatim>\<open>gs = \<close>, then \<^verbatim>\<open>model = gs.best_estimator_\<close>), so this call leads back to no
  import either.
\<close>

theorem log10_call_has_no_import:
  "lexed python_intro_checkpoint ! 1 = [[Name ''log10'', Op ''('', Number ''10'', Op '')'']]
   \<and> take 1 (call_trace python_intro_checkpoint) = [(''log10'', Unbound)]
   \<and> ''log10'' \<notin> set python_builtins
   \<and> \<not> delegated (''log10'', Unbound)
   \<and> (''fit'', Unbound) \<in> set (call_trace part_000)"
  apply (simp only: call_trace_corpus lexed_corpus)
  apply code_simp
  done

text \<open>
  C1, amended. No code cell of any document defines a function or a class: the keywords
  \<^verbatim>\<open>def\<close>, \<^verbatim>\<open>class\<close> and \<^verbatim>\<open>lambda\<close> occur in no logical line of the corpus. Every call
  of a code cell, of a bare name or of a method, either leads back through the
  assignments and imports of its document to a builtin or to a module of \<^verbatim>\<open>pymks\<close>,
  \<^verbatim>\<open>sklearn\<close>, \<^verbatim>\<open>numpy\<close>, \<^verbatim>\<open>matplotlib\<close> or \<^verbatim>\<open>math\<close>, or leads to nothing that the text
  binds. The calls that lead to nothing are \<^verbatim>\<open>log10\<close> in the Python introduction and
  the methods of a receiver that a blank leaves out or unbound: \<^verbatim>\<open>reshape\<close> in
  \<open>cahn_hilliard\<close>, \<^verbatim>\<open>discretize\<close> in \<open>checker_board\<close>, \<^verbatim>\<open>fit\<close> and \<^verbatim>\<open>score\<close> in
  the notebook of unknown name. The operations the claim names are calls into
  \<^verbatim>\<open>pymks\<close>: the strain simulations and the Cahn-Hilliard data come from
  \<^verbatim>\<open>pymks.datasets\<close>, the time stepping is the method \<^verbatim>\<open>run\<close> of a
  \<^verbatim>\<open>CahnHilliardSimulation\<close>, the calibration is the method \<^verbatim>\<open>fit\<close> of an
  \<^verbatim>\<open>MKSLocalizationModel\<close>, the correlations come from \<^verbatim>\<open>pymks.stats\<close>.
\<close>

theorem computation_is_delegated:
  "list_all (\<lambda>nb. list_all (list_all (\<lambda>t. \<not> keyword_in definition_keywords t))
                    (all_statements nb)) corpus
   \<and> list_all (\<lambda>nb. list_all (\<lambda>c. snd c = Unbound \<or> delegated c) (call_trace nb)) corpus
   \<and> map undelegated corpus =
       [[(''reshape'', Unbound)], [(''discretize'', Unbound)], [], [],
        [(''log10'', Unbound)], [(''fit'', Unbound), (''score'', Unbound)]]
   \<and> (''make_elastic_FE_strain_delta'', Library ''pymks.datasets'')
        \<in> set (call_trace elasticity_2D)
   \<and> (''make_elastic_FE_strain_random'', Library ''pymks.datasets'')
        \<in> set (call_trace elasticity_2D)
   \<and> (''make_cahn_hilliard'', Library ''pymks.datasets'') \<in> set (call_trace cahn_hilliard)
   \<and> (''CahnHilliardSimulation'', Library ''pymks.datasets.cahn_hilliard_simulation'')
        \<in> set (call_trace cahn_hilliard)
   \<and> (''run'', Library ''pymks.datasets.cahn_hilliard_simulation'')
        \<in> set (call_trace cahn_hilliard)
   \<and> (''MKSLocalizationModel'', Library ''pymks'') \<in> set (call_trace elasticity_2D)
   \<and> (''fit'', Library ''pymks'') \<in> set (call_trace elasticity_2D)
   \<and> (''autocorrelate'', Library ''pymks.stats'') \<in> set (call_trace checker_board)
   \<and> (''crosscorrelate'', Library ''pymks.stats'') \<in> set (call_trace checker_board)"
proof -
  have plain:
    "list_all (\<lambda>nb. list_all (list_all (\<lambda>t. \<not> keyword_in definition_keywords t))
                      (all_statements nb)) corpus"
    apply (simp only: corpus_def all_statements_def lexed_corpus list.pred_inject)
    apply code_simp
    done
  have traced:
    "list_all (\<lambda>nb. list_all (\<lambda>c. snd c = Unbound \<or> delegated c) (call_trace nb)) corpus
     \<and> map undelegated corpus =
         [[(''reshape'', Unbound)], [(''discretize'', Unbound)], [], [],
          [(''log10'', Unbound)], [(''fit'', Unbound), (''score'', Unbound)]]"
    apply (simp only: corpus_def undelegated_def call_trace_corpus list.pred_inject list.map)
    apply code_simp
    done
  have named:
    "(''make_elastic_FE_strain_delta'', Library ''pymks.datasets'')
        \<in> set (call_trace elasticity_2D)
     \<and> (''make_elastic_FE_strain_random'', Library ''pymks.datasets'')
          \<in> set (call_trace elasticity_2D)
     \<and> (''make_cahn_hilliard'', Library ''pymks.datasets'') \<in> set (call_trace cahn_hilliard)
     \<and> (''CahnHilliardSimulation'', Library ''pymks.datasets.cahn_hilliard_simulation'')
          \<in> set (call_trace cahn_hilliard)
     \<and> (''run'', Library ''pymks.datasets.cahn_hilliard_simulation'')
          \<in> set (call_trace cahn_hilliard)
     \<and> (''MKSLocalizationModel'', Library ''pymks'') \<in> set (call_trace elasticity_2D)
     \<and> (''fit'', Library ''pymks'') \<in> set (call_trace elasticity_2D)
     \<and> (''autocorrelate'', Library ''pymks.stats'') \<in> set (call_trace checker_board)
     \<and> (''crosscorrelate'', Library ''pymks.stats'') \<in> set (call_trace checker_board)"
    apply (simp only: call_trace_corpus)
    apply code_simp
    done
  from plain traced named show ?thesis by blast
qed
text \<open>
  C2, as stated, says that every external interface a code cell uses belongs to the MKS
  library. It does not hold: the Cahn-Hilliard notebook calls \<^verbatim>\<open>train_test_split\<close>, which
  it imported from \<^verbatim>\<open>sklearn.cross_validation\<close>.
\<close>

theorem sklearn_call_outside_mks:
  "(''train_test_split'', Some ''sklearn.cross_validation'') \<in> set (call_origins cahn_hilliard)
   \<and> \<not> from_library [''pymks''] (''train_test_split'', Some ''sklearn.cross_validation'')"
  apply (simp only: call_origins_def all_statements_def lexed_corpus)
  apply code_simp
  done

text \<open>
  C2, amended. The modules the code cells import are, document by document, the ones
  listed below: \<^verbatim>\<open>pymks\<close> and its submodules, \<^verbatim>\<open>sklearn\<close> and its submodules, \<^verbatim>\<open>numpy\<close>,
  \<^verbatim>\<open>matplotlib.pyplot\<close> and \<^verbatim>\<open>math\<close>, and no other. So the MKS library is the main external
  interface of the corpus, next to NumPy, matplotlib, scikit-learn and the standard
  library's \<^verbatim>\<open>math\<close>.
\<close>

theorem external_interfaces:
  "map imported_modules corpus =
     [[''numpy'', ''matplotlib.pyplot'', ''pymks.datasets'', ''sklearn'',
       ''sklearn.cross_validation'', ''pymks'', ''pymks.bases'', ''sklearn.grid_search'',
       ''pymks.datasets.cahn_hilliard_simulation'', ''pymks.tools''],
      [''numpy'', ''matplotlib.pyplot'', ''pymks.datasets'', ''pymks'', ''pymks.stats'',
       ''pymks.tools''],
      [''numpy'', ''matplotlib.pyplot'', ''pymks'', ''pymks.datasets'', ''pymks.tools''],
      [''numpy'', ''matplotlib.pyplot'', ''pymks'', ''pymks.datasets'', ''pymks.tools''],
      [''math'', ''numpy'', ''matplotlib.pyplot'', ''sklearn''],
      [''numpy'', ''matplotlib.pyplot'', ''pymks.datasets'', ''pymks'',
       ''sklearn.cross_validation'', ''sklearn.grid_search'', ''sklearn.metrics'',
       ''pymks.tools'']]
   \<and> list_all (\<lambda>nb. list_all (\<lambda>m. module_root m \<in> set
          [''pymks'', ''sklearn'', ''numpy'', ''matplotlib'', ''math'']) (imported_modules nb))
        corpus"
  apply (simp only: corpus_def imported_modules_def all_statements_def lexed_corpus
      list.pred_inject list.map)
  apply code_simp
  done


text \<open>
  C3, as stated, says that some notebook exercises an \<^verbatim>\<open>MKSHomogenizationModel\<close> and
  that some notebook fits an \<^verbatim>\<open>MKSLocalizationModel\<close> on delta microstructures. The name
  \<^verbatim>\<open>MKSHomogenizationModel\<close> occurs once in the corpus, in an import of the notebook of
  unknown name; the two lines after the imports, which are to build the model, are blank
  (\<^verbatim>\<open>prim_basis = \<close> and \<^verbatim>\<open>model = \<close>), so no code cell makes or uses such a model. And
  the call that fits the localization model in \<open>elasticity_2D\<close> is \<^verbatim>\<open>model.fit()\<close>:
  what it is fitted on is left blank.
\<close>

theorem homogenization_model_never_built:
  "map (\<lambda>nb. occurrences nb ''MKSHomogenizationModel'') corpus = [0, 0, 0, 0, 0, 1]
   \<and> lexed part_000 ! 4 =
       [[Keyword ''from'', Name ''pymks'', Keyword ''import'', Name ''MKSHomogenizationModel''],
        [Keyword ''from'', Name ''pymks'', Keyword ''import'', Name ''PrimitiveBasis''],
        [Name ''prim_basis'', Op ''=''],
        [Name ''model'', Op ''='']]
   \<and> lexed elasticity_2D ! 5 = [[Name ''model'', Op ''.'', Name ''fit'', Op ''('', Op '')'']]"
  apply (simp only: corpus_def occurrences_def all_statements_def lexed_corpus list.map)
  apply code_simp
  done

text \<open>
  C3, amended. Three of the four demonstration tasks are exercised by calls of a code
  cell, and the fourth is prepared: \<open>elasticity_2D\<close> calls
  \<^verbatim>\<open>make_delta_microstructures\<close>, \<^verbatim>\<open>make_elastic_FE_strain_delta\<close> and
  \<^verbatim>\<open>MKSLocalizationModel\<close> and calls \<^verbatim>\<open>fit\<close> on the model, with the arguments left
  blank; \<open>cahn_hilliard\<close> calls \<^verbatim>\<open>make_cahn_hilliard\<close> and \<^verbatim>\<open>CahnHilliardSimulation\<close>
  and runs the simulation; \<open>checker_board\<close> calls \<^verbatim>\<open>autocorrelate\<close> and
  \<^verbatim>\<open>crosscorrelate\<close>. For homogenization the notebook of unknown name imports
  \<^verbatim>\<open>MKSHomogenizationModel\<close> and leaves the construction of the model to the reader: no
  code cell of the corpus calls the class, and the \<^verbatim>\<open>fit\<close> and \<^verbatim>\<open>score\<close> that this
  notebook calls are methods of names that only blank assignments bind.
\<close>

theorem four_tasks_covered:
  "map (\<lambda>nb. imports_from nb ''pymks'' ''MKSHomogenizationModel'') corpus
     = [False, False, False, False, False, True]
   \<and> map (\<lambda>nb. occurrences nb ''MKSHomogenizationModel'') corpus = [0, 0, 0, 0, 0, 1]
   \<and> lexed part_000 ! 4 ! 3 = [Name ''model'', Op ''='']
   \<and> (''fit'', Unbound) \<in> set (call_trace part_000)
   \<and> (''score'', Unbound) \<in> set (call_trace part_000)
   \<and> calls elasticity_2D ''make_delta_microstructures''
   \<and> calls elasticity_2D ''make_elastic_FE_strain_delta''
   \<and> calls elasticity_2D ''MKSLocalizationModel''
   \<and> (''fit'', Library ''pymks'') \<in> set (call_trace elasticity_2D)
   \<and> lexed elasticity_2D ! 5 = [[Name ''model'', Op ''.'', Name ''fit'', Op ''('', Op '')'']]
   \<and> calls cahn_hilliard ''make_cahn_hilliard''
   \<and> calls cahn_hilliard ''CahnHilliardSimulation''
   \<and> (''run'', Library ''pymks.datasets.cahn_hilliard_simulation'')
        \<in> set (call_trace cahn_hilliard)
   \<and> calls checker_board ''autocorrelate''
   \<and> calls checker_board ''crosscorrelate''"
  apply (simp only: corpus_def calls_def imports_from_def occurrences_def all_statements_def
      call_trace_corpus lexed_corpus list.map)
  apply code_simp
  done
text \<open>
  C4. No logical line of any code cell contains \<^verbatim>\<open>try\<close>, \<^verbatim>\<open>except\<close>, \<^verbatim>\<open>finally\<close>,
  \<^verbatim>\<open>raise\<close> or \<^verbatim>\<open>assert\<close>, and no logical line is an \<^verbatim>\<open>if\<close>, \<^verbatim>\<open>elif\<close>, \<^verbatim>\<open>else\<close>,
  \<^verbatim>\<open>while\<close> or \<^verbatim>\<open>with\<close> statement, so that no cell branches on what a call returned
  (the only \<^verbatim>\<open>if\<close> of the corpus are the filters of three list comprehensions).
\<close>

theorem no_error_handling:
  "list_all (\<lambda>nb. list_all (\<lambda>s. list_all (\<lambda>t. \<not> keyword_in error_keywords t) s \<and> \<not> branches s)
                    (all_statements nb)) corpus"
  apply (simp only: corpus_def all_statements_def lexed_corpus list.pred_inject)
  apply code_simp
  done



text \<open>
  C6. No code cell writes outside the kernel's memory. The functions and methods the
  cells call are, document by document, the ones listed below: dataset generators, model
  constructors and methods, NumPy array functions, plotting functions. None of them
  opens, writes, saves or dumps a file or talks to a database; no cell imports a module
  for files or stored data; and the IPython commands are the five known ones, none of
  which writes. What the libraries do inside their calls is not part of the corpus.
\<close>

theorem no_persistent_effects:
  "map called_names corpus =
     [[''make_cahn_hilliard'', ''draw_concentrations'', ''product'', ''train_test_split'',
       ''reshape'', ''arange'', ''GridSearchCV'', ''score'', ''draw_gridscores'',
       ''MKSLocalizationModel'', ''PrimitiveBasis'', ''fit'', ''draw_coeff'', ''seed'',
       ''CahnHilliardSimulation'', ''draw_concentrations_compare'', ''normal'', ''copy'',
       ''range'', ''run'', ''predict''],
      [''make_checkerboard_microstructure'', ''draw_microstructures'', ''PrimitiveBasis'',
       ''discretize'', ''autocorrelate'', ''draw_autocorrelations'', ''crosscorrelate'',
       ''draw_crosscorrelations''],
      [''make_delta_microstructures'', ''draw_microstructures'',
       ''make_elastic_FE_strain_delta'', ''PrimitiveBasis'', ''MKSLocalizationModel'',
       ''fit'', ''seed'', ''make_elastic_FE_strain_random'', ''draw_microstructure_strain'',
       ''resize_coeff'', ''draw_coeff'', ''predict'', ''draw_strains_compare'',
       ''draw_differences''],
      [''make_elastic_FE_strain_delta'', ''seed'', ''make_elastic_FE_strain_random''],
      [''log10'', ''ones'', ''eye'', ''arange'', ''load_diabetes'', ''LinearRegression'',
       ''mean'', ''score'', ''scatter'', ''plot'', ''xticks'', ''yticks'', ''show''],
      [''prod'', ''arange'', ''draw_gridscores'', ''fit'', ''draw_components'', ''score'',
       ''draw_goodness_of_fit'']]
   \<and> list_all (\<lambda>nb. disjoint (called_names nb) file_writers
                  \<and> disjoint (map module_root (imported_modules nb)) storage_modules
                  \<and> list_all (\<lambda>l. l \<in> set known_magics) (magics nb)) corpus"
  apply (simp only: corpus_def imported_modules_def magics_def called_names_def
      all_statements_def lexed_corpus list.pred_inject list.map)
  apply code_simp
  done



text \<open>
  C8, as stated, says that a run of any of these notebooks fails with a syntax error at
  its first stub cell. In the Python introduction the first cell the parser rejects is
  the fifth code cell (\<^verbatim>\<open>my_name = \<close>), but the run fails before, at the second code
  cell, with a \<open>NameError\<close>: \<^verbatim>\<open>log10(10)\<close> calls a name that nothing has bound.
\<close>

theorem python_intro_fails_before_blank:
  "first_rejected python_intro_checkpoint = Some 4
   \<and> fst (run_all happy_path python_intro_checkpoint) = Failed 1 NameError"
  apply (simp only: first_rejected_def rejected_cells_def run_all_def lexed_corpus)
  apply code_simp
  done

text \<open>
  C8, amended. The corpus has cells that are not valid Python: an assignment with nothing
  left of \<^verbatim>\<open>=\<close>, an assignment with nothing right of it, a call with an empty argument
  slot. Every document has such a cell. Whatever the libraries do, a run of a document
  from a fresh kernel fails no later than at its first such cell, and if it fails there,
  it fails with \<open>SyntaxError\<close>; the statements it has executed by then are a prefix of
  the statements of the cells before, so nothing of the rejected cell is executed. When
  every statement that reaches the libraries succeeds, five documents fail exactly at
  their first rejected cell, after all the statements of the cells before it; the Python
  introduction fails earlier, with \<open>NameError\<close>.
\<close>

theorem blanks_stop_the_run:
  "lexed elasticity_2D ! 2 ! 5 =
     [Op ''='', Name ''make_elastic_FE_strain_delta'', Op ''('', Name ''elastic_modulus'',
      Op ''='', Name ''elastic_modulus'', Op '','', Name ''poissons_ratio'', Op ''='',
      Name ''poissons_ratio'', Op '','', Name ''size'', Op ''='', Name ''size'', Op '','',
      Name ''macro_strain'', Op ''='', Name ''macro_strain'', Op '')'']
   \<and> exists_adjacent empty_target Newline (lexed elasticity_2D ! 2 ! 5 @ [Newline])
   \<and> lexed part_000 ! 1 ! 8 = [Name ''X'', Op '','', Name ''y'', Op ''='']
   \<and> exists_adjacent empty_value Newline (lexed part_000 ! 1 ! 8 @ [Newline])
   \<and> lexed elasticity_2D ! 3 ! 1 =
        [Name ''draw_microstructure_strain'', Op ''('', Op '','', Op '')'']
   \<and> exists_adjacent empty_slot Newline (lexed elasticity_2D ! 3 ! 1 @ [Newline])
   \<and> map first_rejected corpus = [Some 1, Some 1, Some 2, Some 3, Some 4, Some 1]
   \<and> (\<forall>lib. list_all (stops_by_blank lib) corpus)
   \<and> list_all (stops_at_blank happy_path)
        [cahn_hilliard, checker_board, elasticity_2D, elasticity_2D_second, part_000]
   \<and> fst (run_all happy_path python_intro_checkpoint) = Failed 1 NameError"
proof -
  have blanks:
    "lexed elasticity_2D ! 2 ! 5 =
       [Op ''='', Name ''make_elastic_FE_strain_delta'', Op ''('', Name ''elastic_modulus'',
        Op ''='', Name ''elastic_modulus'', Op '','', Name ''poissons_ratio'', Op ''='',
        Name ''poissons_ratio'', Op '','', Name ''size'', Op ''='', Name ''size'', Op '','',
        Name ''macro_strain'', Op ''='', Name ''macro_strain'', Op '')'']
     \<and> exists_adjacent empty_target Newline (lexed elasticity_2D ! 2 ! 5 @ [Newline])
     \<and> lexed part_000 ! 1 ! 8 = [Name ''X'', Op '','', Name ''y'', Op ''='']
     \<and> exists_adjacent empty_value Newline (lexed part_000 ! 1 ! 8 @ [Newline])
     \<and> lexed elasticity_2D ! 3 ! 1 =
          [Name ''draw_microstructure_strain'', Op ''('', Op '','', Op '')'']
     \<and> exists_adjacent empty_slot Newline (lexed elasticity_2D ! 3 ! 1 @ [Newline])"
    apply (simp only: lexed_corpus)
    apply code_simp
    done
  have first: "map first_rejected corpus = [Some 1, Some 1, Some 2, Some 3, Some 4, Some 1]"
    by (simp add: corpus_def first_rejected_corpus)
  have any: "\<forall>lib. list_all (stops_by_blank lib) corpus"
    by (simp add: corpus_def stops_by_blankI [OF first_rejected_corpus(1)]
        stops_by_blankI [OF first_rejected_corpus(2)] stops_by_blankI [OF first_rejected_corpus(3)]
        stops_by_blankI [OF first_rejected_corpus(4)] stops_by_blankI [OF first_rejected_corpus(5)]
        stops_by_blankI [OF first_rejected_corpus(6)])
  have happy:
    "list_all (stops_at_blank happy_path)
       [cahn_hilliard, checker_board, elasticity_2D, elasticity_2D_second, part_000]
     \<and> fst (run_all happy_path python_intro_checkpoint) = Failed 1 NameError"
    apply (simp only: stops_at_blank_def first_rejected_corpus statements_before_def run_all_def
        lexed_corpus list.pred_inject option.case)
    apply code_simp
    done
  from blanks first any happy show ?thesis by blast
qed



text \<open>
  C10. In the Cahn-Hilliard notebook and in the two documents of
  \<^verbatim>\<open>elasticity_2D.ipynb\<close>, every call that draws random numbers
  (\<^verbatim>\<open>make_elastic_FE_strain_random\<close>, \<^verbatim>\<open>make_cahn_hilliard\<close>, \<^verbatim>\<open>np.random.normal\<close>) comes, in
  document order, after a call of \<^verbatim>\<open>np.random.seed\<close> with a literal argument, and the
  arguments are 99, 191 and 101. Hence what the draws of a document return does not depend
  on the state of the generator when the run starts: two runs return the same values,
  whatever the reseeding and the generators compute.
\<close>

theorem seeded_runs_repeat:
  "random_events cahn_hilliard =
     [Seed (Some 99), Draw ''make_cahn_hilliard'', Seed (Some 191),
      Draw ''np.random.normal'', Draw ''np.random.normal'']
   \<and> random_events elasticity_2D =
       [Seed (Some 99), Draw ''make_elastic_FE_strain_random'',
        Draw ''make_elastic_FE_strain_random'']
   \<and> random_events elasticity_2D_second =
       [Seed (Some 101), Draw ''make_elastic_FE_strain_random'']
   \<and> list_all (\<lambda>nb. seeded False (random_events nb) \<and> list_all seed_is_fixed (random_events nb))
        [cahn_hilliard, elasticity_2D, elasticity_2D_second]
   \<and> (\<forall>reseed gen r1 r2.
         list_all (\<lambda>nb. replay reseed gen r1 (random_events nb)
                         = (replay reseed gen r2 (random_events nb) :: 'v list))
           [cahn_hilliard, elasticity_2D, elasticity_2D_second])"
proof -
  have seeded: "list_all (\<lambda>nb. seeded False (random_events nb)
        \<and> list_all seed_is_fixed (random_events nb))
      [cahn_hilliard, elasticity_2D, elasticity_2D_second]"
    unfolding list.pred_inject random_events_corpus by code_simp
  then have "seeded False (random_events cahn_hilliard)"
    "seeded False (random_events elasticity_2D)"
    "seeded False (random_events elasticity_2D_second)"
    by simp_all
  then have "\<forall>reseed gen r1 r2.
      list_all (\<lambda>nb. replay reseed gen r1 (random_events nb)
                      = (replay reseed gen r2 (random_events nb) :: 'v list))
        [cahn_hilliard, elasticity_2D, elasticity_2D_second]"
    by (simp add: seeded_forgets)
  with seeded random_events_corpus show ?thesis by blast
qed

end
